theory Spec2Isabelle
  imports Complex_Main "HOL-Library.Log_Nat" "HOL-Library.Multiset" "HOL-Library.Product_Lexorder"
begin

section \<open>JavaScript values\<close>

text \<open>
  A JavaScript string is a sequence of UTF-16 code units; \<open>length\<close> counts code units.
  Code units are natural numbers here, so that Hangul text (outside Latin-1) is covered.
  \<open>js\<close> turns an ASCII literal into such a string.
\<close>

type_synonym jsstring = "nat list"

definition js :: "string \<Rightarrow> jsstring" where
  "js s = map of_char s"

text \<open>
  A number is finite, an infinity or NaN. The finite values are written as exact
  rationals, of which the doubles are some, and negative zero is not told from zero
  (no operation below tells them apart).
\<close>

datatype number = NaN | NegInf | Fin rat | PosInf

text \<open>
  The values \<open>JSON.parse\<close> and \<open>request.json()\<close> can produce, and \<open>undefined\<close> for
  a property that is not there.
\<close>

datatype jsval =
    Undefined
  | Null
  | Bool bool
  | Num number
  | Str jsstring
  | Arr "jsval list"
  | Obj "(jsstring \<times> jsval) list"

text \<open>Property read \<open>v.k\<close> for a key that no prototype defines.\<close>

fun js_get :: "jsval \<Rightarrow> jsstring \<Rightarrow> jsval" where
  "js_get (Obj kvs) k = (case map_of kvs k of None \<Rightarrow> Undefined | Some v \<Rightarrow> v)"
| "js_get _ k = Undefined"

text \<open>ToBoolean.\<close>

fun truthy :: "jsval \<Rightarrow> bool" where
  "truthy Undefined = False"
| "truthy Null = False"
| "truthy (Bool b) = b"
| "truthy (Num n) = (n \<noteq> NaN \<and> n \<noteq> Fin 0)"
| "truthy (Str s) = (s \<noteq> [])"
| "truthy (Arr _) = True"
| "truthy (Obj _) = True"

text \<open>
  White space and line terminators: what \<open>String.prototype.trim\<close> strips and what
  \<open>\s\<close> matches in a regular expression.
\<close>

definition js_ws :: "nat \<Rightarrow> bool" where
  "js_ws c \<longleftrightarrow>
     c = 9 \<or> c = 10 \<or> c = 11 \<or> c = 12 \<or> c = 13 \<or> c = 32 \<or> c = 160 \<or> c = 5760 \<or>
     (8192 \<le> c \<and> c \<le> 8202) \<or> c = 8232 \<or> c = 8233 \<or> c = 8239 \<or> c = 8287 \<or>
     c = 12288 \<or> c = 65279"

definition js_trim :: "jsstring \<Rightarrow> jsstring" where
  "js_trim s = rev (dropWhile js_ws (rev (dropWhile js_ws s)))"

text \<open>
  What a handler answers: a JSON payload with status 200, or an error payload with its
  status and, where the handler sets one, its machine-readable \<open>code\<close>. The text of the
  \<open>error\<close> message is not modelled.
\<close>

datatype api_code =
    MISSING_INPUT | EMPTY_INPUT | INVALID_CONTENT | TOO_SHORT | TOO_LONG
  | INVALID_PERIOD | RATE_LIMIT_EXCEEDED | AUTHENTICATION_FAILED
  | PARSE_ERROR | NETWORK_ERROR | INTERNAL_ERROR

datatype 'a response =
    Success 'a
  | Failure nat "api_code option"


section \<open>The task routes: \<open>PUT\<close> and \<open>DELETE /api/todos/[id]\<close>\<close>

text \<open>A row of the \<open>todos\<close> table (\<open>Database.public.Tables.todos.Row\<close>).\<close>

datatype todo_status = Pending | Completed

record todo_row =
  row_id :: jsstring
  user_id :: jsstring
  title :: jsstring
  description :: "jsstring option"
  due_date :: "jsstring option"
  status :: todo_status
  priority :: int
  tags :: "jsstring list option"
  created_at :: jsstring
  updated_at :: jsstring

text \<open>
  \<open>updateData\<close>: a field is \<open>None\<close> when the handler did not set it. \<open>description\<close>
  is set to \<open>null\<close> (\<open>Some None\<close>) or to a string.
\<close>

record update_data =
  ud_title :: "jsstring option"
  ud_description :: "jsstring option option"
  ud_due_date :: "jsval option"
  ud_status :: "jsval option"
  ud_priority :: "jsval option"

text \<open>
  The hosted database is outside the repository. What it decides alone is a parameter:
  whether it can read the id and the payload at all (a malformed uuid or a value of the
  wrong column type is an error whatever rows exist), and what a row becomes under an
  update (\<open>None\<close> when a constraint rejects it). What the handlers rely on is written
  out: a statement touches exactly the rows that pass both \<open>eq\<close> filters.
\<close>

record database =
  id_ok :: "jsstring \<Rightarrow> bool"
  payload_ok :: "update_data \<Rightarrow> bool"
  write_row :: "todo_row \<Rightarrow> update_data \<Rightarrow> todo_row option"

datatype db_error = PGRST116 | OtherDbError

definition matches :: "jsstring \<Rightarrow> jsstring \<Rightarrow> todo_row \<Rightarrow> bool" where
  "matches tid uid r \<longleftrightarrow> row_id r = tid \<and> user_id r = uid"

text \<open>
  \<open>.update(updateData).eq('id', todoId).eq('user_id', user.id).select().single()\<close>:
  the rows that match are rewritten and returned; \<open>single()\<close> answers \<open>PGRST116\<close>
  unless exactly one row came back. A failed statement leaves the table as it was.
\<close>

fun rewrite_rows ::
  "database \<Rightarrow> update_data \<Rightarrow> jsstring \<Rightarrow> jsstring \<Rightarrow> todo_row list \<Rightarrow> todo_row list option"
where
  "rewrite_rows db ud tid uid [] = Some []"
| "rewrite_rows db ud tid uid (r # rs) =
     (if matches tid uid r then
        (case write_row db r ud of
           None \<Rightarrow> None
         | Some r' \<Rightarrow> map_option ((#) r') (rewrite_rows db ud tid uid rs))
      else map_option ((#) r) (rewrite_rows db ud tid uid rs))"

definition update_single ::
  "database \<Rightarrow> todo_row list \<Rightarrow> update_data \<Rightarrow> jsstring \<Rightarrow> jsstring
     \<Rightarrow> (db_error + todo_row) \<times> todo_row list"
where
  "update_single db tbl ud tid uid =
     (if \<not> id_ok db tid \<or> \<not> id_ok db uid \<or> \<not> payload_ok db ud then (Inl OtherDbError, tbl)
      else case rewrite_rows db ud tid uid tbl of
             None \<Rightarrow> (Inl OtherDbError, tbl)
           | Some tbl' \<Rightarrow>
               (case filter (matches tid uid) tbl' of
                  [r] \<Rightarrow> (Inr r, tbl')
                | _ \<Rightarrow> (Inl PGRST116, tbl')))"

text \<open>\<open>.delete().eq('id', todoId).eq('user_id', user.id)\<close>: no error when no row matches.\<close>

definition delete_rows ::
  "database \<Rightarrow> todo_row list \<Rightarrow> jsstring \<Rightarrow> jsstring \<Rightarrow> db_error option \<times> todo_row list"
where
  "delete_rows db tbl tid uid =
     (if \<not> id_ok db tid \<or> \<not> id_ok db uid then (Some OtherDbError, tbl)
      else (None, filter (\<lambda>r. \<not> matches tid uid r) tbl))"

text \<open>
  \<open>title.trim()\<close> and \<open>description?.trim()\<close>: only a string has a callable \<open>trim\<close>;
  on any other value the call throws a TypeError (\<open>None\<close>), and \<open>?.\<close> answers
  \<open>undefined\<close> on \<open>null\<close> and \<open>undefined\<close> only.
\<close>

fun call_trim :: "jsval \<Rightarrow> jsstring option" where
  "call_trim (Str s) = Some (js_trim s)"
| "call_trim _ = None"

text \<open>The check \<open>title !== undefined && (!title || title.trim().length === 0)\<close>.\<close>

definition title_rejected :: "jsval \<Rightarrow> bool option" where
  "title_rejected t =
     (if t = Undefined then Some False
      else if \<not> truthy t then Some True
      else map_option (\<lambda>s. length s = 0) (call_trim t))"

text \<open>\<open>description?.trim() || null\<close>, for a \<open>description\<close> that is not \<open>undefined\<close>.\<close>

definition description_value :: "jsval \<Rightarrow> jsstring option option" where
  "description_value d =
     (if d = Null then Some None
      else map_option (\<lambda>s. if s = [] then None else Some s) (call_trim d))"

definition opt_field :: "jsval \<Rightarrow> jsval option" where
  "opt_field v = (if v = Undefined then None else Some v)"

text \<open>
  The lines that fill \<open>updateData\<close>; \<open>None\<close> when one of them throws.
\<close>

definition build_update :: "jsval \<Rightarrow> update_data option" where
  "build_update body =
     (let t = js_get body (js ''title'');
          d = js_get body (js ''description'');
          dd = js_get body (js ''due_date'')
      in case (if t = Undefined then Some None else map_option Some (call_trim t)) of
           None \<Rightarrow> None
         | Some ut \<Rightarrow>
             (case (if d = Undefined then Some None else map_option Some (description_value d)) of
                None \<Rightarrow> None
              | Some udesc \<Rightarrow>
                  Some \<lparr> ud_title = ut,
                         ud_description = udesc,
                         ud_due_date = (if dd = Undefined then None
                                        else Some (if truthy dd then dd else Null)),
                         ud_status = opt_field (js_get body (js ''status'')),
                         ud_priority = opt_field (js_get body (js ''priority'')) \<rparr>))"

text \<open>
  \<open>PUT\<close>. \<open>auth\<close> is the user \<open>supabase.auth.getUser()\<close> answers, \<open>body\<close> what
  \<open>request.json()\<close> answers (\<open>None\<close> when it rejects). Destructuring \<open>null\<close> throws.
  Every exception ends in the handler's \<open>catch\<close>: status 500. The result is the
  response and the table afterwards.
\<close>

definition PUT ::
  "database \<Rightarrow> todo_row list \<Rightarrow> jsstring option \<Rightarrow> jsstring \<Rightarrow> jsval option
     \<Rightarrow> todo_row response \<times> todo_row list"
where
  "PUT db tbl auth todoId body =
     (case auth of
        None \<Rightarrow> (Failure 401 None, tbl)
      | Some uid \<Rightarrow>
          (case body of
             None \<Rightarrow> (Failure 500 None, tbl)
           | Some b \<Rightarrow>
               if b = Null then (Failure 500 None, tbl)
               else (case title_rejected (js_get b (js ''title'')) of
                       None \<Rightarrow> (Failure 500 None, tbl)
                     | Some True \<Rightarrow> (Failure 400 None, tbl)
                     | Some False \<Rightarrow>
                         (case build_update b of
                            None \<Rightarrow> (Failure 500 None, tbl)
                          | Some ud \<Rightarrow>
                              (case update_single db tbl ud todoId uid of
                                 (Inl PGRST116, tbl') \<Rightarrow> (Failure 404 None, tbl')
                               | (Inl OtherDbError, tbl') \<Rightarrow> (Failure 500 None, tbl')
                               | (Inr r, tbl') \<Rightarrow> (Success r, tbl'))))))"

text \<open>\<open>DELETE\<close>: the success payload is the confirmation message.\<close>

definition DELETE ::
  "database \<Rightarrow> todo_row list \<Rightarrow> jsstring option \<Rightarrow> jsstring \<Rightarrow> unit response \<times> todo_row list"
where
  "DELETE db tbl auth todoId =
     (case auth of
        None \<Rightarrow> (Failure 401 None, tbl)
      | Some uid \<Rightarrow>
          (case delete_rows db tbl todoId uid of
             (Some e, tbl') \<Rightarrow> (Failure 500 None, tbl')
           | (None, tbl') \<Rightarrow> (Success (), tbl')))"

text \<open>
  A database for evaluation: it reads every id and payload, and an update sets the
  title and the description it is given.
\<close>

definition plain_db :: database where
  "plain_db =
     \<lparr> id_ok = (\<lambda>_. True),
       payload_ok = (\<lambda>_. True),
       write_row = (\<lambda>r ud. Some (r\<lparr> title := (case ud_title ud of None \<Rightarrow> title r | Some t \<Rightarrow> t),
                                      description := (case ud_description ud of
                                                        None \<Rightarrow> description r | Some d \<Rightarrow> d) \<rparr>)) \<rparr>"

definition sample_row :: todo_row where
  "sample_row =
     \<lparr> row_id = js ''t1'', user_id = js ''alice'', title = js ''Write report'',
       description = None, due_date = None, status = Pending, priority = 2,
       tags = None, created_at = js ''2024-01-15T09:00:00+00:00'',
       updated_at = js ''2024-01-15T09:00:00+00:00'' \<rparr>"


section \<open>Numbers: IEEE 754 double arithmetic\<close>

text \<open>
  \<open>a / b\<close> and \<open>a * b\<close> on JavaScript numbers are the exact results rounded to the
  nearest binary64 value, ties to the even significand. A positive double is written
  \<open>(m, e)\<close> for \<open>m * 2 ^ e\<close>, with a significand \<open>m\<close> of 53 bits. \<open>nearest n d\<close> is
  the double nearest to the quotient \<open>n / d\<close> of two positive integers: the quotient lies
  between \<open>2 ^ e\<close> and \<open>2 ^ (e + 1)\<close> and is rounded to a multiple of \<open>2 ^ (e - 52)\<close>.
  Array lengths and percentages are far inside the range of normal doubles, where this
  is all there is to the rounding.
\<close>

type_synonym double = "int \<times> int"

definition dval :: "double \<Rightarrow> rat" where
  "dval x = of_int (fst x) * 2 powi (snd x)"

definition half_even :: "int \<Rightarrow> int \<Rightarrow> int" where
  "half_even n d =
     (let f = n div d; r = n mod d
      in if 2 * r < d then f else if d < 2 * r then f + 1 else if even f then f else f + 1)"

definition nearest :: "int \<Rightarrow> int \<Rightarrow> double" where
  "nearest n d =
     (let e0 = bitlen n - bitlen d;
          e = (if (if 0 \<le> e0 then d * 2 ^ nat e0 \<le> n else d \<le> n * 2 ^ nat (- e0))
               then e0 else e0 - 1);
          k = 52 - e
      in (if 0 \<le> k then half_even (n * 2 ^ nat k) d else half_even n (d * 2 ^ nat (- k)), - k))"

text \<open>\<open>a / b\<close> on two array lengths, and \<open>x * 100\<close>.\<close>

definition js_divide :: "nat \<Rightarrow> nat \<Rightarrow> double" where
  "js_divide a b = nearest (int a) (int b)"

definition times_100 :: "double \<Rightarrow> double" where
  "times_100 x = (case x of (m, e) \<Rightarrow> case nearest (m * 100) 1 of (m', e') \<Rightarrow> (m', e' + e))"

text \<open>
  \<open>Math.round\<close>: the nearest integer, a tie going up, that is
  \<open>\<lfloor>m * 2 ^ e + 1 / 2\<rfloor>\<close>.
\<close>

definition math_round :: "double \<Rightarrow> int" where
  "math_round x =
     (case x of (m, e) \<Rightarrow>
        if 0 \<le> e then m * 2 ^ nat e else (2 * m + 2 ^ nat (- e)) div 2 ^ nat (1 - e))"

text \<open>
  \<open>b > 0 ? Math.round((a / b) * 100) : 0\<close> on two array lengths: the expression
  behind \<open>completionRate\<close>, \<open>previousCompletionRate\<close>, \<open>deadlineComplianceRate\<close>
  and \<open>postponementRate\<close>.
\<close>

definition percent :: "nat \<Rightarrow> nat \<Rightarrow> int" where
  "percent a b = (if b > 0 then math_round (times_100 (js_divide a b)) else 0)"

text \<open>
  The percentage the specification words describe: \<open>100 * a / b\<close> in exact arithmetic,
  rounded half up.
\<close>

definition exact_percent :: "nat \<Rightarrow> nat \<Rightarrow> int" where
  "exact_percent a b = (if b > 0 then floor (100 * of_nat a / (of_nat b :: rat) + 1 / 2) else 0)"


section \<open>The summary route: analytics over the fetched rows\<close>

text \<open>
  What the language runtime decides is a parameter of the model: \<open>JSON.parse\<close>
  (\<open>None\<close> when it throws), \<open>Date.parse\<close> (milliseconds since the epoch, \<open>None\<close> for
  an invalid date), the conversions between numbers and strings, \<open>toLowerCase\<close>, and
  the text an engine puts into a TypeError (from the value and the property involved).
  Theorems hold for every runtime; evaluation uses the runtime defined further down.
\<close>

record runtime =
  json_parse :: "jsstring \<Rightarrow> jsval option"
  date_parse :: "jsstring \<Rightarrow> int option"
  number_to_string :: "rat \<Rightarrow> jsstring"
  string_to_number :: "jsstring \<Rightarrow> number"
  to_lower_case :: "jsstring \<Rightarrow> jsstring"
  type_error_message :: "jsval \<Rightarrow> jsstring \<Rightarrow> jsstring"

text \<open>
  The clock as the handlers read it: \<open>new Date().toISOString().split('T')[0]\<close> and
  \<open>Date.now()\<close>.
\<close>

record clock =
  today :: jsstring
  now_ms :: int

text \<open>
  \<open>Array.prototype.sort\<close> with a comparator is stable, and for a consistent comparator
  its result is the one stable sorted arrangement: an element goes in front of the
  first element it does not have to follow.
\<close>

fun insert_by :: "('a \<Rightarrow> 'a \<Rightarrow> int) \<Rightarrow> 'a \<Rightarrow> 'a list \<Rightarrow> 'a list" where
  "insert_by cmp x [] = [x]"
| "insert_by cmp x (y # ys) = (if cmp x y \<le> 0 then x # y # ys else y # insert_by cmp x ys)"

fun js_sort :: "('a \<Rightarrow> 'a \<Rightarrow> int) \<Rightarrow> 'a list \<Rightarrow> 'a list" where
  "js_sort cmp [] = []"
| "js_sort cmp (x # xs) = insert_by cmp x (js_sort cmp xs)"

definition completedTodos :: "todo_row list \<Rightarrow> todo_row list" where
  "completedTodos todos = filter (\<lambda>todo. status todo = Completed) todos"

definition pendingTodos :: "todo_row list \<Rightarrow> todo_row list" where
  "pendingTodos todos = filter (\<lambda>todo. status todo = Pending) todos"

definition urgentTodos :: "todo_row list \<Rightarrow> todo_row list" where
  "urgentTodos todos = filter (\<lambda>todo. priority todo = 1) todos"

definition completionRate :: "todo_row list \<Rightarrow> int" where
  "completionRate todos = percent (length (completedTodos todos)) (length todos)"

text \<open>\<open>previousTodos\<close> may be \<open>null\<close>.\<close>

definition previousCompletionRate :: "todo_row list option \<Rightarrow> int" where
  "previousCompletionRate previousTodos =
     (case previousTodos of None \<Rightarrow> 0 | Some prev \<Rightarrow> completionRate prev)"

text \<open>\<open>d1 <= d2\<close> and \<open>d1 > d2\<close> on dates: false when either is invalid.\<close>

definition date_le :: "int option \<Rightarrow> int option \<Rightarrow> bool" where
  "date_le a b = (case (a, b) of (Some x, Some y) \<Rightarrow> x \<le> y | _ \<Rightarrow> False)"

definition date_gt :: "int option \<Rightarrow> int option \<Rightarrow> bool" where
  "date_gt a b = (case (a, b) of (Some x, Some y) \<Rightarrow> x > y | _ \<Rightarrow> False)"

text \<open>A nullable string column in a condition: \<open>null\<close> and \<open>''\<close> are falsy.\<close>

definition present :: "jsstring option \<Rightarrow> bool" where
  "present d = (case d of None \<Rightarrow> False | Some s \<Rightarrow> s \<noteq> [])"

definition onTimeTodos :: "runtime \<Rightarrow> todo_row list \<Rightarrow> todo_row list" where
  "onTimeTodos rt todos =
     filter (\<lambda>todo.
        if \<not> present (due_date todo) then True
        else date_le (date_parse rt (if updated_at todo \<noteq> [] then updated_at todo
                                      else created_at todo))
                     (date_parse rt (the (due_date todo))))
       (completedTodos todos)"

definition deadlineComplianceRate :: "runtime \<Rightarrow> todo_row list \<Rightarrow> int" where
  "deadlineComplianceRate rt todos =
     percent (length (onTimeTodos rt todos)) (length (completedTodos todos))"

definition postponedTodos :: "runtime \<Rightarrow> todo_row list \<Rightarrow> todo_row list" where
  "postponedTodos rt todos =
     filter (\<lambda>todo.
        if \<not> present (due_date todo) \<or> updated_at todo = [] then False
        else date_gt (date_parse rt (updated_at todo)) (date_parse rt (created_at todo))
             \<and> status todo \<noteq> Completed
             \<and> date_gt (date_parse rt (updated_at todo)) (date_parse rt (the (due_date todo))))
       todos"

definition postponementRate :: "runtime \<Rightarrow> todo_row list \<Rightarrow> int" where
  "postponementRate rt todos = percent (length (postponedTodos rt todos)) (length todos)"

text \<open>
  The entries of \<open>remainingTodos\<close> and \<open>focusTasks\<close>:
  \<open>{title, priority, due_date, tags: todo.tags || []}\<close>.
\<close>

record todo_item =
  ti_title :: jsstring
  ti_priority :: int
  ti_due_date :: "jsstring option"
  ti_tags :: "jsstring list"

definition to_item :: "todo_row \<Rightarrow> todo_item" where
  "to_item todo =
     \<lparr> ti_title = title todo, ti_priority = priority todo, ti_due_date = due_date todo,
       ti_tags = (case tags todo of None \<Rightarrow> [] | Some ts \<Rightarrow> ts) \<rparr>"

definition by_priority :: "todo_row \<Rightarrow> todo_row \<Rightarrow> int" where
  "by_priority a b = priority a - priority b"

text \<open>
  \<open>pendingTodos.sort(...)\<close> sorts the array in place: from here on \<open>pendingTodos\<close>
  is the sorted array, and \<open>focusTasks\<close> starts from it.
\<close>

definition sortedPending :: "todo_row list \<Rightarrow> todo_row list" where
  "sortedPending todos = js_sort by_priority (pendingTodos todos)"

definition remainingTodos :: "todo_row list \<Rightarrow> todo_item list" where
  "remainingTodos todos = map to_item (sortedPending todos)"

definition isHighPriority :: "todo_row \<Rightarrow> bool" where
  "isHighPriority todo \<longleftrightarrow> priority todo = 1"

definition isDueToday :: "clock \<Rightarrow> todo_row \<Rightarrow> bool" where
  "isDueToday ck todo \<longleftrightarrow> due_date todo = Some (today ck)"

definition isDueSoon :: "runtime \<Rightarrow> clock \<Rightarrow> todo_row \<Rightarrow> bool" where
  "isDueSoon rt ck todo \<longleftrightarrow>
     present (due_date todo)
     \<and> date_le (date_parse rt (the (due_date todo))) (Some (now_ms ck + 2 * 24 * 60 * 60 * 1000))"

definition focus_filter :: "runtime \<Rightarrow> clock \<Rightarrow> todo_row \<Rightarrow> bool" where
  "focus_filter rt ck todo \<longleftrightarrow> isHighPriority todo \<or> isDueToday ck todo \<or> isDueSoon rt ck todo"

definition focus_order :: "clock \<Rightarrow> todo_row \<Rightarrow> todo_row \<Rightarrow> int" where
  "focus_order ck a b =
     (if isDueToday ck a \<and> \<not> isDueToday ck b then - 1
      else if isDueToday ck b \<and> \<not> isDueToday ck a then 1
      else priority a - priority b)"

definition focusRows :: "runtime \<Rightarrow> clock \<Rightarrow> todo_row list \<Rightarrow> todo_row list" where
  "focusRows rt ck todos =
     take 5 (js_sort (focus_order ck) (filter (focus_filter rt ck) (sortedPending todos)))"

definition focusTasks :: "runtime \<Rightarrow> clock \<Rightarrow> todo_row list \<Rightarrow> todo_item list" where
  "focusTasks rt ck todos = map to_item (focusRows rt ck todos)"




section \<open>The summary route: \<open>POST /api/ai/summary\<close>\<close>

text \<open>
  The Korean texts of the route, as UTF-16 code units (with their meaning).
\<close>

definition txt_today :: jsstring where
  "txt_today =
     [50724, 45720]"

definition txt_this_week :: jsstring where
  "txt_this_week =
     [51060, 48264, 32, 51452]"

definition txt_none_today :: jsstring where
  "txt_none_today =
     [50724, 45720, 32, 46321, 47197, 46108, 32, 54624, 32, 51068, 51060, 32, 50630, 49845,
      45768, 45796, 46]"

definition txt_none_this_week :: jsstring where
  "txt_none_this_week =
     [51060, 48264, 32, 51452, 32, 46321, 47197, 46108, 32, 54624, 32, 51068, 51060, 32,
      50630, 49845, 45768, 45796, 46]"

definition txt_add_tasks :: jsstring where
  "txt_add_tasks =
     [49352, 47196, 50868, 32, 54624, 32, 51068, 51012, 32, 52628, 44032, 54644, 48372,
      49464, 50836, 33]"

definition txt_add_to_improve :: jsstring where
  "txt_add_to_improve =
     [54624, 32, 51068, 51012, 32, 52628, 44032, 54616, 50668, 32, 49373, 49328, 49457,
      51012, 32, 45458, 50668, 48372, 49464, 50836, 46]"

definition txt_total :: jsstring where
  "txt_total =
     [32, 52509, 32]"

definition txt_of_tasks :: jsstring where
  "txt_of_tasks =
     [44060, 51032, 32, 54624, 32, 51068, 32, 51473, 32]"

definition txt_done_open :: jsstring where
  "txt_done_open =
     [44060, 32, 50756, 47308, 32, 40]"

definition txt_percent_close :: jsstring where
  "txt_percent_close =
     [37, 41]"

definition txt_rate :: jsstring where
  "txt_rate =
     [50756, 47308, 50984, 32]"

definition txt_percent :: jsstring where
  "txt_percent =
     [37]"

definition txt_improved :: jsstring where
  "txt_improved =
     [51060, 51204, 32, 44592, 44036, 32, 45824, 48708, 32, 54693, 49345]"

definition txt_stable :: jsstring where
  "txt_stable =
     [50504, 51221, 51201, 51064, 32, 49688, 51456, 32, 50976, 51648]"

definition txt_steady :: jsstring where
  "txt_steady =
     [44984, 51456, 54620, 32, 51652, 54665, 51012, 32, 48372, 51060, 44256, 32, 51080,
      49845, 45768, 45796]"

definition txt_deadline_rate :: jsstring where
  "txt_deadline_rate =
     [47560, 44048, 51068, 32, 51456, 49688, 50984, 32]"

definition txt_some_postponed :: jsstring where
  "txt_some_postponed =
     [51068, 48512, 32, 50672, 44592, 32, 48156, 49373]"

definition txt_as_planned :: jsstring where
  "txt_as_planned =
     [44228, 54925, 45824, 47196, 32, 51652, 54665]"

definition txt_even_hours :: jsstring where
  "txt_even_hours =
     [45796, 50577, 54620, 32, 49884, 44036, 45824, 50640, 32, 44256, 47480, 32, 54876,
      46041]"

definition txt_best_areas :: jsstring where
  "txt_best_areas =
     [44592, 48376, 51201, 51064, 32, 54624, 32, 51068, 32, 44288, 47532, 47484, 32, 51096,
      54616, 44256, 32, 51080, 49845, 45768, 45796]"

definition txt_struggling :: jsstring where
  "txt_struggling =
     [45908, 32, 47566, 51008, 32, 45936, 51060, 53552, 47196, 32, 54056, 53556, 51012, 32,
      48516, 49437, 54644, 48372, 49464, 50836]"

definition txt_priority_helps :: jsstring where
  "txt_priority_helps =
     [50864, 49440, 49692, 50948, 32, 49444, 51221, 51060, 32, 46020, 50880, 51060, 32,
      46104, 44256, 32, 51080, 49845, 45768, 45796]"

definition txt_more_tasks :: jsstring where
  "txt_more_tasks =
     [45908, 32, 47566, 51008, 32, 54624, 32, 51068, 51012, 32, 52628, 44032, 54616, 49884,
      47732, 32, 45908, 32, 51088, 49464, 54620, 32, 48516, 49437, 51012, 32, 51228, 44277,
      54624, 32, 49688, 32, 51080, 49845, 45768, 45796]"

definition txt_keep_going :: jsstring where
  "txt_keep_going =
     [44984, 51456, 55176, 32, 54624, 32, 51068, 51012, 32, 44288, 47532, 54616, 44256, 32,
      51080, 51004, 45768, 32, 44228, 49549, 32, 51652, 54665, 54616, 49464, 50836]"

definition txt_tasks_completed :: jsstring where
  "txt_tasks_completed =
     [44060, 51032, 32, 54624, 32, 51068, 51012, 32, 50756, 47308, 54664, 49845, 45768,
      45796, 33]"

definition txt_good_effort :: jsstring where
  "txt_good_effort =
     [44984, 51456, 54620, 32, 45432, 47141, 51060, 32, 48372, 44592, 32, 51339, 49845,
      45768, 45796]"

definition txt_next_time :: jsstring where
  "txt_next_time =
     [45796, 51020, 50640, 46020, 32, 51060, 47088, 32, 49549, 46020, 47196, 32, 51652,
      54665, 54644, 48372, 49464, 50836]"

definition txt_new_task :: jsstring where
  "txt_new_task =
     [49352, 32, 54624, 32, 51068]"

text \<open>\<open>String.prototype.js_includes\<close>.\<close>

fun js_includes :: "jsstring \<Rightarrow> jsstring \<Rightarrow> bool" where
  "js_includes [] pat = (pat = [])"
| "js_includes (c # cs) pat = (take (length pat) (c # cs) = pat \<or> js_includes cs pat)"

text \<open>
  \<open>text.match(/\{[\s\S]*\}/)\<close>: from the first opening brace to the last closing
  brace after it; no match without such a pair. \<open>jsonString\<close> is the match, or the
  whole text when there is none.
\<close>

definition json_match :: "jsstring \<Rightarrow> jsstring option" where
  "json_match text =
     (let m = rev (dropWhile (\<lambda>c. c \<noteq> 125) (rev (dropWhile (\<lambda>c. c \<noteq> 123) text)))
      in if m = [] then None else Some m)"

definition jsonString :: "jsstring \<Rightarrow> jsstring" where
  "jsonString text = (case json_match text of Some m \<Rightarrow> m | None \<Rightarrow> text)"

text \<open>
  The text-completion call: the reply's text, or an exception with its message. The
  prompt is built from the analytics by string interpolation only and is the model's
  business; any reply is possible for any prompt.
\<close>

datatype model_reply = Reply jsstring | ModelFails jsstring

text \<open>What a query answers: \<open>error\<close> set, or \<open>data\<close> (which may be \<open>null\<close>).\<close>

datatype query_result = QueryFailed | QueryData "todo_row list option"

datatype period = Today | Week

definition read_period :: "jsval \<Rightarrow> period option" where
  "read_period p =
     (if p = Str (js ''today'') then Some Today
      else if p = Str (js ''week'') then Some Week
      else None)"

definition period_label :: "period \<Rightarrow> jsstring" where
  "period_label p = (case p of Today \<Rightarrow> txt_today | Week \<Rightarrow> txt_this_week)"

text \<open>A number inside a template literal.\<close>

definition shown :: "runtime \<Rightarrow> int \<Rightarrow> jsstring" where
  "shown rt n = number_to_string rt (of_int n)"

text \<open>\<open>a || b\<close>.\<close>

definition or_else :: "jsval \<Rightarrow> jsval \<Rightarrow> jsval" where
  "or_else a b = (if truthy a then a else b)"

text \<open>\<open>Array.isArray(a) ? a : b\<close>.\<close>

fun array_or :: "jsval \<Rightarrow> jsval \<Rightarrow> jsval" where
  "array_or (Arr xs) b = Arr xs"
| "array_or _ b = b"

definition item_json :: "todo_item \<Rightarrow> jsval" where
  "item_json i =
     Obj [(js ''title'', Str (ti_title i)),
          (js ''priority'', Num (Fin (of_int (ti_priority i)))),
          (js ''due_date'', (case ti_due_date i of None \<Rightarrow> Null | Some d \<Rightarrow> Str d)),
          (js ''tags'', Arr (map Str (ti_tags i)))]"

text \<open>The answer when no row was fetched.\<close>

definition empty_summary :: "period \<Rightarrow> jsval" where
  "empty_summary p =
     Obj [(js ''summary'', Str (case p of Today \<Rightarrow> txt_none_today | Week \<Rightarrow> txt_none_this_week)),
          (js ''urgentTasks'', Arr []),
          (js ''insights'', Arr [Str txt_add_tasks]),
          (js ''recommendations'', Arr [Str txt_add_to_improve])]"

text \<open>The defaults of \<open>validatedData\<close>, from \<open>analysisData\<close>.\<close>

definition completionRateChange :: "todo_row list \<Rightarrow> todo_row list option \<Rightarrow> int" where
  "completionRateChange todos previousTodos =
     completionRate todos - previousCompletionRate previousTodos"

definition default_summary :: "runtime \<Rightarrow> period \<Rightarrow> todo_row list \<Rightarrow> jsval" where
  "default_summary rt p todos =
     Str (period_label p @ txt_total @ shown rt (int (length todos)) @ txt_of_tasks
          @ shown rt (int (length (completedTodos todos))) @ txt_done_open
          @ shown rt (completionRate todos) @ txt_percent_close)"

definition default_completionAnalysis ::
  "runtime \<Rightarrow> todo_row list \<Rightarrow> todo_row list option \<Rightarrow> jsval" where
  "default_completionAnalysis rt todos previousTodos =
     Obj [(js ''rate'', Str (txt_rate @ shown rt (completionRate todos) @ txt_percent)),
          (js ''trend'', Str (if 0 < completionRateChange todos previousTodos
                              then txt_improved else txt_stable)),
          (js ''strengths'', Str txt_steady)]"

definition default_timeManagement :: "runtime \<Rightarrow> todo_row list \<Rightarrow> jsval" where
  "default_timeManagement rt todos =
     Obj [(js ''deadlineCompliance'',
             Str (txt_deadline_rate @ shown rt (deadlineComplianceRate rt todos) @ txt_percent)),
          (js ''postponementPattern'',
             Str (if 0 < postponementRate rt todos then txt_some_postponed else txt_as_planned)),
          (js ''productiveHours'', Str txt_even_hours)]"

definition default_productivityPatterns :: jsval where
  "default_productivityPatterns =
     Obj [(js ''bestPerformingAreas'', Str txt_best_areas),
          (js ''strugglingAreas'', Str txt_struggling),
          (js ''priorityEffectiveness'', Str txt_priority_helps)]"

definition default_motivation :: "runtime \<Rightarrow> period \<Rightarrow> todo_row list \<Rightarrow> jsval" where
  "default_motivation rt p todos =
     Obj [(js ''achievements'',
             Str (period_label p @ [32] @ shown rt (int (length (completedTodos todos)))
                  @ txt_tasks_completed)),
          (js ''encouragement'', Str txt_good_effort),
          (js ''nextSteps'', Str txt_next_time)]"

definition validatedData ::
  "runtime \<Rightarrow> clock \<Rightarrow> period \<Rightarrow> todo_row list \<Rightarrow> todo_row list option \<Rightarrow> jsval \<Rightarrow> jsval"
where
  "validatedData rt ck p todos previousTodos parsedData =
     Obj [(js ''summary'', or_else (js_get parsedData (js ''summary'')) (default_summary rt p todos)),
          (js ''urgentTasks'', array_or (js_get parsedData (js ''urgentTasks'')) (Arr [])),
          (js ''remainingTodos'', Arr (map item_json (remainingTodos todos))),
          (js ''focusTasks'', Arr (map item_json (focusTasks rt ck todos))),
          (js ''completionAnalysis'',
             or_else (js_get parsedData (js ''completionAnalysis''))
                     (default_completionAnalysis rt todos previousTodos)),
          (js ''timeManagement'',
             or_else (js_get parsedData (js ''timeManagement'')) (default_timeManagement rt todos)),
          (js ''productivityPatterns'',
             or_else (js_get parsedData (js ''productivityPatterns'')) default_productivityPatterns),
          (js ''insights'', array_or (js_get parsedData (js ''insights'')) (Arr [Str txt_more_tasks])),
          (js ''recommendations'',
             array_or (js_get parsedData (js ''recommendations'')) (Arr [Str txt_keep_going])),
          (js ''motivation'',
             or_else (js_get parsedData (js ''motivation'')) (default_motivation rt p todos))]"

text \<open>The \<open>catch\<close> of the summary route, on the message of what was thrown.\<close>

definition summary_catch :: "jsstring \<Rightarrow> jsval response" where
  "summary_catch msg =
     (if js_includes msg (js ''quota'') \<or> js_includes msg (js ''rate limit'') \<or> js_includes msg (js ''429'')
      then Failure 429 (Some RATE_LIMIT_EXCEEDED)
      else if js_includes msg (js ''API_KEY'') \<or> js_includes msg (js ''authentication'')
              \<or> js_includes msg (js ''401'')
      then Failure 401 (Some AUTHENTICATION_FAILED)
      else Failure 500 (Some INTERNAL_ERROR))"

text \<open>
  The handler. \<open>apiKey\<close> says whether the key is configured; \<open>body\<close> is what
  \<open>request.json()\<close> answers, or the message it throws; \<open>auth\<close> the signed-in user;
  \<open>cur\<close> and \<open>prev\<close> the answers of the two queries; \<open>reply\<close> the model's.
  Reading \<open>period\<close> from \<open>null\<close>, or \<open>summary\<close> from a parsed \<open>null\<close>, throws a
  TypeError, which the \<open>catch\<close> turns into a response like any other exception.
\<close>

definition POST_summary ::
  "runtime \<Rightarrow> clock \<Rightarrow> bool \<Rightarrow> jsstring + jsval \<Rightarrow> jsstring option
     \<Rightarrow> query_result \<Rightarrow> query_result \<Rightarrow> model_reply \<Rightarrow> jsval response"
where
  "POST_summary rt ck apiKey body auth cur prev reply =
     (if \<not> apiKey then Failure 500 None
      else case body of
        Inl msg \<Rightarrow> summary_catch msg
      | Inr b \<Rightarrow>
          if b = Null \<or> b = Undefined then summary_catch (type_error_message rt b (js ''period''))
          else if \<not> truthy (js_get b (js ''period'')) then Failure 400 (Some INVALID_PERIOD)
          else (case read_period (js_get b (js ''period'')) of
                  None \<Rightarrow> Failure 400 (Some INVALID_PERIOD)
                | Some p \<Rightarrow>
                    (case auth of
                       None \<Rightarrow> Failure 401 None
                     | Some uid \<Rightarrow>
                         (case (cur, prev) of
                            (QueryData todos, QueryData previousTodos) \<Rightarrow>
                              (case todos of
                                 None \<Rightarrow> Success (empty_summary p)
                               | Some [] \<Rightarrow> Success (empty_summary p)
                               | Some (t # ts) \<Rightarrow>
                                   (case reply of
                                      ModelFails msg \<Rightarrow> summary_catch msg
                                    | Reply text \<Rightarrow>
                                        (case json_parse rt (jsonString text) of
                                           None \<Rightarrow> Failure 500 (Some PARSE_ERROR)
                                         | Some parsedData \<Rightarrow>
                                             if parsedData = Null
                                             then summary_catch
                                                    (type_error_message rt Null (js ''summary''))
                                             else Success (validatedData rt ck p (t # ts)
                                                             previousTodos parsedData))))
                          | _ \<Rightarrow> Failure 500 None))))"

definition sample_clock :: clock where
  "sample_clock = \<lparr> today = js ''2024-01-15'', now_ms = 1705312800000 \<rparr>"

definition today_body :: jsval where
  "today_body = Obj [(js ''period'', Str (js ''today''))]"


text \<open>The fields of a summary report, and those of them the model is asked for.\<close>

definition report_fields :: "jsstring list" where
  "report_fields =
     [js ''summary'', js ''urgentTasks'', js ''remainingTodos'', js ''focusTasks'',
      js ''completionAnalysis'', js ''timeManagement'', js ''productivityPatterns'',
      js ''insights'', js ''recommendations'', js ''motivation'']"

definition model_fields :: "jsstring list" where
  "model_fields =
     [js ''summary'', js ''urgentTasks'', js ''completionAnalysis'', js ''timeManagement'',
      js ''productivityPatterns'', js ''insights'', js ''recommendations'', js ''motivation'']"

text \<open>The report in which every field asked of the model has its default.\<close>

definition default_report ::
  "runtime \<Rightarrow> clock \<Rightarrow> period \<Rightarrow> todo_row list \<Rightarrow> todo_row list option \<Rightarrow> jsval" where
  "default_report rt ck p todos previousTodos =
     Obj [(js ''summary'', default_summary rt p todos),
          (js ''urgentTasks'', Arr []),
          (js ''remainingTodos'', Arr (map item_json (remainingTodos todos))),
          (js ''focusTasks'', Arr (map item_json (focusTasks rt ck todos))),
          (js ''completionAnalysis'', default_completionAnalysis rt todos previousTodos),
          (js ''timeManagement'', default_timeManagement rt todos),
          (js ''productivityPatterns'', default_productivityPatterns),
          (js ''insights'', Arr [Str txt_more_tasks]),
          (js ''recommendations'', Arr [Str txt_keep_going]),
          (js ''motivation'', default_motivation rt p todos)]"



section \<open>The parse route: \<open>POST /api/ai/parse-todo\<close>\<close>

subsection \<open>Conversions the operators apply\<close>

text \<open>
  A computation that may throw: \<open>Inl\<close> carries the message of the error thrown.
\<close>

definition show_number :: "runtime \<Rightarrow> number \<Rightarrow> jsstring" where
  "show_number rt n =
     (case n of NaN \<Rightarrow> js ''NaN'' | NegInf \<Rightarrow> js ''-Infinity''
      | Fin r \<Rightarrow> number_to_string rt r | PosInf \<Rightarrow> js ''Infinity'')"

text \<open>
  The conversion to a string. An array joins its elements with commas, \<open>null\<close> and
  \<open>undefined\<close> elements counting as empty. A parsed object has no callable method of
  its own: with a member named \<open>toString\<close> in the way the conversion throws a
  TypeError, otherwise the inherited method answers \<open>[object Object]\<close>. The conversion
  to a primitive value, with either hint, ends the same way for arrays and objects.
\<close>

fun to_string :: "runtime \<Rightarrow> jsval \<Rightarrow> jsstring + jsstring"
  and join_elements :: "runtime \<Rightarrow> jsval list \<Rightarrow> jsstring + jsstring"
where
  "to_string rt Undefined = Inr (js ''undefined'')"
| "to_string rt Null = Inr (js ''null'')"
| "to_string rt (Bool b) = Inr (if b then js ''true'' else js ''false'')"
| "to_string rt (Num n) = Inr (show_number rt n)"
| "to_string rt (Str s) = Inr s"
| "to_string rt (Arr xs) = join_elements rt xs"
| "to_string rt (Obj kvs) =
     (if map_of kvs (js ''toString'') = None then Inr (js ''[object Object]'')
      else Inl (type_error_message rt (Obj kvs) (js ''toString'')))"
| "join_elements rt [] = Inr []"
| "join_elements rt (x # xs) =
     (case (if x = Undefined \<or> x = Null then Inr [] else to_string rt x) of
        Inl e \<Rightarrow> Inl e
      | Inr s \<Rightarrow>
          if xs = [] then Inr s
          else (case join_elements rt xs of Inl e \<Rightarrow> Inl e | Inr r \<Rightarrow> Inr (s @ 44 # r)))"

definition to_number :: "runtime \<Rightarrow> jsval \<Rightarrow> jsstring + number" where
  "to_number rt v =
     (case v of
        Undefined \<Rightarrow> Inr NaN
      | Null \<Rightarrow> Inr (Fin 0)
      | Bool b \<Rightarrow> Inr (Fin (if b then 1 else 0))
      | Num n \<Rightarrow> Inr n
      | Str s \<Rightarrow> Inr (string_to_number rt s)
      | _ \<Rightarrow> (case to_string rt v of Inl e \<Rightarrow> Inl e | Inr s \<Rightarrow> Inr (string_to_number rt s)))"

text \<open>\<open>n < c\<close> and \<open>n > c\<close> for a finite \<open>c\<close>: false on NaN.\<close>

definition less_than :: "number \<Rightarrow> rat \<Rightarrow> bool" where
  "less_than n c = (case n of NaN \<Rightarrow> False | NegInf \<Rightarrow> True | Fin r \<Rightarrow> r < c | PosInf \<Rightarrow> False)"

definition greater_than :: "number \<Rightarrow> rat \<Rightarrow> bool" where
  "greater_than n c = (case n of NaN \<Rightarrow> False | NegInf \<Rightarrow> False | Fin r \<Rightarrow> c < r | PosInf \<Rightarrow> True)"

definition js_lt :: "runtime \<Rightarrow> jsval \<Rightarrow> rat \<Rightarrow> jsstring + bool" where
  "js_lt rt v c = (case to_number rt v of Inl e \<Rightarrow> Inl e | Inr n \<Rightarrow> Inr (less_than n c))"

definition js_gt :: "runtime \<Rightarrow> jsval \<Rightarrow> rat \<Rightarrow> jsstring + bool" where
  "js_gt rt v c = (case to_number rt v of Inl e \<Rightarrow> Inl e | Inr n \<Rightarrow> Inr (greater_than n c))"

text \<open>The property \<open>length\<close> of a value that is neither \<open>null\<close> nor \<open>undefined\<close>.\<close>

fun get_length :: "jsval \<Rightarrow> jsval" where
  "get_length (Str s) = Num (Fin (of_nat (length s)))"
| "get_length (Arr xs) = Num (Fin (of_nat (length xs)))"
| "get_length (Obj kvs) = js_get (Obj kvs) (js ''length'')"
| "get_length _ = Undefined"

text \<open>
  \<open>new Date(v)\<close> as a time value, \<open>None\<close> for an invalid date: a string is parsed,
  an array or object converted to a string first, any other value converted to a number
  of milliseconds, cut to an integer and refused beyond 8.64e15.
\<close>

definition time_clip :: "number \<Rightarrow> int option" where
  "time_clip n =
     (case n of
        Fin r \<Rightarrow> if \<bar>r\<bar> \<le> 8640000000000000
                 then Some (if 0 \<le> r then floor r else ceiling r) else None
      | _ \<Rightarrow> None)"

definition new_date :: "runtime \<Rightarrow> jsval \<Rightarrow> jsstring + int option" where
  "new_date rt v =
     (case v of
        Str s \<Rightarrow> Inr (date_parse rt s)
      | Arr xs \<Rightarrow> (case to_string rt v of Inl e \<Rightarrow> Inl e | Inr s \<Rightarrow> Inr (date_parse rt s))
      | Obj kvs \<Rightarrow> (case to_string rt v of Inl e \<Rightarrow> Inl e | Inr s \<Rightarrow> Inr (date_parse rt s))
      | _ \<Rightarrow> (case to_number rt v of Inl e \<Rightarrow> Inl e | Inr n \<Rightarrow> Inr (time_clip n)))"

definition date_lt :: "int option \<Rightarrow> int option \<Rightarrow> bool" where
  "date_lt a b = (case (a, b) of (Some x, Some y) \<Rightarrow> x < y | _ \<Rightarrow> False)"

subsection \<open>\<open>preprocessInput\<close> and \<open>validateInput\<close>\<close>

text \<open>\<open>replace(/\s+/g, ' ')\<close>: the flag says that the previous character was white space.\<close>

fun collapse_ws :: "bool \<Rightarrow> jsstring \<Rightarrow> jsstring" where
  "collapse_ws prev [] = []"
| "collapse_ws prev (c # cs) =
     (if js_ws c then (if prev then collapse_ws True cs else 32 # collapse_ws True cs)
      else c # collapse_ws False cs)"

text \<open>
  \<open>replace(/\b\w/g, c => c.toUpperCase())\<close>: a word character (letter, digit or
  underscore) that does not follow a word character is made upper case.
\<close>

definition is_word :: "nat \<Rightarrow> bool" where
  "is_word c \<longleftrightarrow> (48 \<le> c \<and> c \<le> 57) \<or> (65 \<le> c \<and> c \<le> 90) \<or> c = 95 \<or> (97 \<le> c \<and> c \<le> 122)"

fun capitalize :: "bool \<Rightarrow> jsstring \<Rightarrow> jsstring" where
  "capitalize prev [] = []"
| "capitalize prev (c # cs) =
     (if is_word c \<and> \<not> prev then (if 97 \<le> c \<and> c \<le> 122 then c - 32 else c) # capitalize True cs
      else c # capitalize (is_word c) cs)"

text \<open>
  The characters the last \<open>replace\<close> keeps: word characters, white space, Hangul
  syllables and compatibility jamo, and the listed punctuation, which is all of ASCII's.
  Everything else goes, the two halves of a character outside the basic plane included.
\<close>

definition kept :: "nat \<Rightarrow> bool" where
  "kept c \<longleftrightarrow> (33 \<le> c \<and> c \<le> 126) \<or> js_ws c \<or> (44032 \<le> c \<and> c \<le> 55203) \<or> (12593 \<le> c \<and> c \<le> 12643)"

definition preprocessInput :: "runtime \<Rightarrow> jsstring \<Rightarrow> jsstring" where
  "preprocessInput rt input =
     filter kept (capitalize False (to_lower_case rt (collapse_ws False (js_trim input))))"

text \<open>\<open>validateInput\<close>: the code it rejects the input with. \<open>None\<close> as input is \<open>null\<close>.\<close>

definition validateInput :: "jsstring option \<Rightarrow> api_code option" where
  "validateInput input =
     (case input of
        None \<Rightarrow> Some MISSING_INPUT
      | Some s \<Rightarrow>
          if length s = 0 then Some EMPTY_INPUT
          else (let meaningfulText = filter (\<lambda>c. \<not> js_ws c) s
                in if length meaningfulText = 0 then Some INVALID_CONTENT
                   else if length meaningfulText < 2 then Some TOO_SHORT
                   else if 500 < length s then Some TOO_LONG
                   else None))"

subsection \<open>\<open>postprocessData\<close>\<close>

text \<open>\<open>data.title.substring(0, 200) + '...'\<close>: only a string has the method.\<close>

definition truncated :: "runtime \<Rightarrow> jsval \<Rightarrow> jsstring + jsval" where
  "truncated rt t =
     (case t of
        Str s \<Rightarrow> Inr (Str (take 200 s @ js ''...''))
      | _ \<Rightarrow> Inl (type_error_message rt t (js ''substring'')))"

definition adjust_title :: "runtime \<Rightarrow> jsval \<Rightarrow> jsstring + jsval" where
  "adjust_title rt t =
     (case (if truthy t
            then (case js_gt rt (get_length t) 200 of
                    Inl e \<Rightarrow> Inl e
                  | Inr long \<Rightarrow> if long then truncated rt t else Inr t)
            else Inr t) of
        Inl e \<Rightarrow> Inl e
      | Inr t' \<Rightarrow>
          if truthy t'
          then (case js_lt rt (get_length t') 2 of
                  Inl e \<Rightarrow> Inl e
                | Inr short \<Rightarrow> if short then Inr (Str txt_new_task) else Inr t')
          else Inr t')"

definition adjust_due_date :: "runtime \<Rightarrow> clock \<Rightarrow> jsval \<Rightarrow> jsstring + jsval" where
  "adjust_due_date rt ck d =
     (if truthy d
      then (case new_date rt d of
              Inl e \<Rightarrow> Inl e
            | Inr inputDate \<Rightarrow>
                if date_lt inputDate (date_parse rt (today ck)) then Inr (Str (today ck))
                else Inr d)
      else Inr (Str (today ck)))"

definition adjust_priority :: "runtime \<Rightarrow> jsval \<Rightarrow> jsstring + jsval" where
  "adjust_priority rt p =
     (if truthy p
      then (case js_lt rt p 1 of
              Inl e \<Rightarrow> Inl e
            | Inr low \<Rightarrow>
                if low then Inr (Num (Fin 2))
                else (case js_gt rt p 3 of
                        Inl e \<Rightarrow> Inl e
                      | Inr high \<Rightarrow> if high then Inr (Num (Fin 2)) else Inr p))
      else Inr p)"

text \<open>
  \<open>tags.filter(tag => typeof tag === 'string' && tag.trim().length > 0)
  .map(tag => tag.trim()).slice(0, 3)\<close> on an array; the empty list on anything else.
\<close>

fun tag_text :: "jsval \<Rightarrow> jsstring option" where
  "tag_text (Str s) = (if 0 < length (js_trim s) then Some (js_trim s) else None)"
| "tag_text _ = None"

fun adjust_tags :: "jsval \<Rightarrow> jsstring list" where
  "adjust_tags (Arr xs) = take 3 (List.map_filter tag_text xs)"
| "adjust_tags _ = []"

record parsed_todo =
  pt_title :: jsval
  pt_description :: jsval
  pt_due_date :: jsval
  pt_due_time :: jsval
  pt_priority :: jsval
  pt_tags :: "jsstring list"

text \<open>
  \<open>postprocessData\<close> on what \<open>JSON.parse\<close> answered. Reading a property of \<open>null\<close>
  throws. A number, string or boolean has none of the properties, and the assignment to
  its \<open>due_date\<close> throws (the module is in strict mode). An array has none of them
  either, and takes the assignments as any object does.
\<close>

definition postprocessData :: "runtime \<Rightarrow> clock \<Rightarrow> jsval \<Rightarrow> jsstring + parsed_todo" where
  "postprocessData rt ck data =
     (if data = Null \<or> data = Undefined then Inl (type_error_message rt data (js ''title''))
      else if (case data of Obj kvs \<Rightarrow> False | Arr xs \<Rightarrow> False | _ \<Rightarrow> True)
      then Inl (type_error_message rt data (js ''due_date''))
      else case adjust_title rt (js_get data (js ''title'')) of
        Inl e \<Rightarrow> Inl e
      | Inr t \<Rightarrow>
          (case adjust_due_date rt ck (js_get data (js ''due_date'')) of
             Inl e \<Rightarrow> Inl e
           | Inr d \<Rightarrow>
               (case adjust_priority rt (js_get data (js ''priority'')) of
                  Inl e \<Rightarrow> Inl e
                | Inr p \<Rightarrow>
                    Inr \<lparr> pt_title = t,
                          pt_description = js_get data (js ''description''),
                          pt_due_date = d,
                          pt_due_time = js_get data (js ''due_time''),
                          pt_priority = p,
                          pt_tags = adjust_tags (js_get data (js ''tags'')) \<rparr>)))"

subsection \<open>The handler\<close>

text \<open>\<open>Math.max(1, Math.min(3, n))\<close>.\<close>

definition clamp_1_3 :: "number \<Rightarrow> number" where
  "clamp_1_3 n =
     (case n of NaN \<Rightarrow> NaN | NegInf \<Rightarrow> Fin 1 | Fin r \<Rightarrow> Fin (max 1 (min 3 r)) | PosInf \<Rightarrow> Fin 3)"

text \<open>\<open>/^\d{4}-\d{2}-\d{2}$/\<close> and \<open>/^([01]?[0-9]|2[0-3]):[0-5][0-9]$/\<close>.\<close>

definition ascii_digit :: "nat \<Rightarrow> bool" where
  "ascii_digit c \<longleftrightarrow> 48 \<le> c \<and> c \<le> 57"

definition dateRegex :: "jsstring \<Rightarrow> bool" where
  "dateRegex s \<longleftrightarrow>
     (case s of
        [y1, y2, y3, y4, a, m1, m2, b, d1, d2] \<Rightarrow>
          list_all ascii_digit [y1, y2, y3, y4, m1, m2, d1, d2] \<and> a = 45 \<and> b = 45
      | _ \<Rightarrow> False)"

definition timeRegex :: "jsstring \<Rightarrow> bool" where
  "timeRegex s \<longleftrightarrow>
     (case s of
        [h, c, m1, m2] \<Rightarrow> ascii_digit h \<and> c = 58 \<and> 48 \<le> m1 \<and> m1 \<le> 53 \<and> ascii_digit m2
      | [h1, h2, c, m1, m2] \<Rightarrow>
          (((h1 = 48 \<or> h1 = 49) \<and> ascii_digit h2) \<or> (h1 = 50 \<and> 48 \<le> h2 \<and> h2 \<le> 51))
          \<and> c = 58 \<and> 48 \<le> m1 \<and> m1 \<le> 53 \<and> ascii_digit m2
      | _ \<Rightarrow> False)"

text \<open>
  The task draft sent back. \<open>priority\<close> is the number computed; NaN is written as
  \<open>null\<close> in the response body. \<open>status\<close> is always \<open>'pending'\<close>.
\<close>

record task_draft =
  td_title :: jsval
  td_description :: jsval
  td_due_date :: jsval
  td_due_time :: jsval
  td_priority :: number
  td_status :: todo_status
  td_tags :: "jsstring list"

text \<open>
  \<open>validatedData\<close> and the two final checks, from the processed input and the
  post-processed data.
\<close>

definition final_due_date :: "runtime \<Rightarrow> clock \<Rightarrow> jsval \<Rightarrow> jsstring + jsval" where
  "final_due_date rt ck d =
     (let d' = or_else d (Str (today ck))
      in case to_string rt d' of
           Inl e \<Rightarrow> Inl e
         | Inr s \<Rightarrow> Inr (if dateRegex s then d' else Str (today ck)))"

definition final_due_time :: "runtime \<Rightarrow> jsval \<Rightarrow> jsstring + jsval" where
  "final_due_time rt t =
     (let t' = or_else t Null
      in if truthy t'
         then (case to_string rt t' of
                 Inl e \<Rightarrow> Inl e
               | Inr s \<Rightarrow> Inr (if timeRegex s then t' else Null))
         else Inr t')"

definition validated_draft ::
  "runtime \<Rightarrow> clock \<Rightarrow> jsstring \<Rightarrow> parsed_todo \<Rightarrow> jsstring + task_draft" where
  "validated_draft rt ck processedInput pd =
     (case to_number rt (or_else (pt_priority pd) (Num (Fin 2))) of
        Inl e \<Rightarrow> Inl e
      | Inr n \<Rightarrow>
          (case final_due_date rt ck (pt_due_date pd) of
             Inl e \<Rightarrow> Inl e
           | Inr d \<Rightarrow>
               (case final_due_time rt (pt_due_time pd) of
                  Inl e \<Rightarrow> Inl e
                | Inr t \<Rightarrow>
                    Inr \<lparr> td_title = or_else (pt_title pd) (Str (js_trim processedInput)),
                          td_description = or_else (pt_description pd) (Str []),
                          td_due_date = d,
                          td_due_time = t,
                          td_priority = clamp_1_3 n,
                          td_status = Pending,
                          td_tags = pt_tags pd \<rparr>)))"

text \<open>The \<open>catch\<close> of the parse route, on the message of what was thrown.\<close>

definition parse_catch :: "jsstring \<Rightarrow> task_draft response" where
  "parse_catch msg =
     (if js_includes msg (js ''quota'') \<or> js_includes msg (js ''rate limit'') \<or> js_includes msg (js ''429'')
      then Failure 429 (Some RATE_LIMIT_EXCEEDED)
      else if js_includes msg (js ''API_KEY'') \<or> js_includes msg (js ''authentication'')
              \<or> js_includes msg (js ''401'')
      then Failure 401 (Some AUTHENTICATION_FAILED)
      else if js_includes msg (js ''JSON'') then Failure 500 (Some PARSE_ERROR)
      else if js_includes msg (js ''network'') \<or> js_includes msg (js ''timeout'')
              \<or> js_includes msg (js ''fetch'')
      then Failure 500 (Some NETWORK_ERROR)
      else Failure 500 (Some INTERNAL_ERROR))"

text \<open>
  What the handler does with the model's text: the inner \<open>catch\<close> answers a text that
  does not parse with status 500 and no code.
\<close>

definition handle_reply :: "runtime \<Rightarrow> clock \<Rightarrow> jsstring \<Rightarrow> jsstring \<Rightarrow> task_draft response" where
  "handle_reply rt ck processedInput text =
     (case json_parse rt (jsonString text) of
        None \<Rightarrow> Failure 500 None
      | Some parsedData \<Rightarrow>
          (case postprocessData rt ck parsedData of
             Inl e \<Rightarrow> parse_catch e
           | Inr pd \<Rightarrow>
               (case validated_draft rt ck processedInput pd of
                  Inl e \<Rightarrow> parse_catch e
                | Inr draft \<Rightarrow> Success draft)))"

text \<open>
  The handler. \<open>apiKey\<close> says whether the key is configured; \<open>body\<close> is what
  \<open>request.json()\<close> answers, or the message it throws; \<open>reply\<close> is the model's answer
  to the prompt, which embeds the processed input.
\<close>

definition POST_parse ::
  "runtime \<Rightarrow> clock \<Rightarrow> bool \<Rightarrow> jsstring + jsval \<Rightarrow> model_reply \<Rightarrow> task_draft response"
where
  "POST_parse rt ck apiKey body reply =
     (if \<not> apiKey then Failure 500 None
      else case body of
        Inl msg \<Rightarrow> parse_catch msg
      | Inr b \<Rightarrow>
          if b = Null \<or> b = Undefined then parse_catch (type_error_message rt b (js ''input''))
          else (case js_get b (js ''input'') of
                  Str input \<Rightarrow>
                    if input = [] then Failure 400 (Some MISSING_INPUT)
                    else (case validateInput (Some input) of
                            Some code \<Rightarrow> Failure 400 (Some code)
                          | None \<Rightarrow>
                              (case reply of
                                 ModelFails msg \<Rightarrow> parse_catch msg
                               | Reply text \<Rightarrow>
                                   handle_reply rt ck (preprocessInput rt input) text))
                | _ \<Rightarrow> Failure 400 (Some MISSING_INPUT)))"


section \<open>A runtime for evaluation\<close>

text \<open>
  A reader for JSON texts as \<open>JSON.parse\<close> accepts them: the four white-space
  characters, the three literals, numbers, strings with their escapes, arrays and
  objects, where a repeated key keeps its last value. A number is the double nearest to
  its numeral. The first argument bounds the
  depth of the recursion; the text itself, with one more element, is always enough.
\<close>

definition json_ws :: "nat \<Rightarrow> bool" where
  "json_ws c \<longleftrightarrow> c = 32 \<or> c = 9 \<or> c = 10 \<or> c = 13"

definition is_digit :: "nat \<Rightarrow> bool" where
  "is_digit c \<longleftrightarrow> 48 \<le> c \<and> c \<le> 57"

definition digits_value :: "jsstring \<Rightarrow> nat" where
  "digits_value ds = foldl (\<lambda>a c. 10 * a + (c - 48)) 0 ds"

definition hex_digit :: "nat \<Rightarrow> nat option" where
  "hex_digit c =
     (if 48 \<le> c \<and> c \<le> 57 then Some (c - 48)
      else if 65 \<le> c \<and> c \<le> 70 then Some (c - 55)
      else if 97 \<le> c \<and> c \<le> 102 then Some (c - 87)
      else None)"

definition simple_escape :: "nat \<Rightarrow> nat option" where
  "simple_escape e =
     (if e = 34 \<or> e = 92 \<or> e = 47 then Some e
      else if e = 98 then Some 8
      else if e = 102 then Some 12
      else if e = 110 then Some 10
      else if e = 114 then Some 13
      else if e = 116 then Some 9
      else None)"

text \<open>The characters of a string after its opening quote, up to the closing one.\<close>

fun read_chars :: "jsstring \<Rightarrow> jsstring \<Rightarrow> (jsstring \<times> jsstring) option" where
  "read_chars acc [] = None"
| "read_chars acc [c] = (if c = 34 then Some (rev acc, []) else None)"
| "read_chars acc (c # e # cs) =
     (if c = 34 then Some (rev acc, e # cs)
      else if c < 32 then None
      else if c \<noteq> 92 then read_chars (c # acc) (e # cs)
      else if e = 117 then
        (case cs of
           a # b # c' # d # rest \<Rightarrow>
             (case (hex_digit a, hex_digit b, hex_digit c', hex_digit d) of
                (Some h1, Some h2, Some h3, Some h4) \<Rightarrow>
                  read_chars ((((h1 * 16 + h2) * 16 + h3) * 16 + h4) # acc) rest
              | _ \<Rightarrow> None)
         | _ \<Rightarrow> None)
      else (case simple_escape e of None \<Rightarrow> None | Some x \<Rightarrow> read_chars (x # acc) cs))"

text \<open>
  The double a decimal numeral denotes: the nearest one, a multiple of \<open>2 ^ -1074\<close>
  below the normal range, an infinity from \<open>2 ^ 1024\<close> on. The numeral is the quotient
  of two non-negative integers.
\<close>

definition to_double :: "int \<Rightarrow> int \<Rightarrow> number" where
  "to_double n d =
     (if n = 0 then Fin 0
      else case nearest n d of (m, e) \<Rightarrow>
        if e < - 1074 then Fin (of_int (half_even (n * 2 ^ 1074) d) / 2 ^ 1074)
        else if 2 ^ 1024 \<le> dval (m, e) then PosInf
        else Fin (dval (m, e)))"

definition negated :: "number \<Rightarrow> number" where
  "negated n = (case n of NaN \<Rightarrow> NaN | NegInf \<Rightarrow> PosInf | Fin r \<Rightarrow> Fin (- r) | PosInf \<Rightarrow> NegInf)"

text \<open>
  The value of integer digits, fraction digits and exponent digits (the exponent
  negative or not).
\<close>

definition decimal_value :: "jsstring \<Rightarrow> jsstring \<Rightarrow> bool \<Rightarrow> jsstring \<Rightarrow> number" where
  "decimal_value ip fp eneg ep =
     to_double (int (digits_value (ip @ fp)) * (if eneg then 1 else 10 ^ digits_value ep))
               (10 ^ length fp * (if eneg then 10 ^ digits_value ep else 1))"

definition read_number :: "jsstring \<Rightarrow> (number \<times> jsstring) option" where
  "read_number cs =
     (let neg = (cs \<noteq> [] \<and> hd cs = 45);
          cs1 = (if neg then tl cs else cs);
          ip = takeWhile is_digit cs1;
          r1 = dropWhile is_digit cs1;
          has_frac = (r1 \<noteq> [] \<and> hd r1 = 46);
          fp = (if has_frac then takeWhile is_digit (tl r1) else []);
          r2 = (if has_frac then dropWhile is_digit (tl r1) else r1);
          has_exp = (r2 \<noteq> [] \<and> (hd r2 = 101 \<or> hd r2 = 69));
          r3 = (if has_exp then tl r2 else r2);
          eneg = (has_exp \<and> r3 \<noteq> [] \<and> hd r3 = 45);
          r4 = (if has_exp \<and> r3 \<noteq> [] \<and> (hd r3 = 45 \<or> hd r3 = 43) then tl r3 else r3);
          ep = (if has_exp then takeWhile is_digit r4 else []);
          r5 = (if has_exp then dropWhile is_digit r4 else r2);
          mag = decimal_value ip fp eneg ep
      in if ip = [] \<or> (1 < length ip \<and> hd ip = 48) \<or> (has_frac \<and> fp = []) \<or> (has_exp \<and> ep = [])
         then None
         else Some (if neg then negated mag else mag, r5))"

definition skip_ws :: "jsstring \<Rightarrow> jsstring" where
  "skip_ws cs = dropWhile json_ws cs"

text \<open>
  Storing a member: a key already there keeps its place and takes the new value;
  a new key that is an array index goes among the index keys in ascending order, which
  come first; any other new key goes last.
\<close>

definition is_index :: "jsstring \<Rightarrow> bool" where
  "is_index k \<longleftrightarrow>
     k \<noteq> [] \<and> list_all is_digit k \<and> (k = [48] \<or> hd k \<noteq> 48) \<and> digits_value k < 4294967295"

fun insert_index ::
  "jsstring \<Rightarrow> jsval \<Rightarrow> (jsstring \<times> jsval) list \<Rightarrow> (jsstring \<times> jsval) list" where
  "insert_index k v [] = [(k, v)]"
| "insert_index k v ((k', v') # kvs) =
     (if is_index k' \<and> digits_value k' < digits_value k then (k', v') # insert_index k v kvs
      else (k, v) # (k', v') # kvs)"

definition set_key ::
  "jsstring \<Rightarrow> jsval \<Rightarrow> (jsstring \<times> jsval) list \<Rightarrow> (jsstring \<times> jsval) list" where
  "set_key k v kvs =
     (if k \<in> fst ` set kvs then map (\<lambda>kv. if fst kv = k then (k, v) else kv) kvs
      else if is_index k then insert_index k v kvs
      else kvs @ [(k, v)])"

fun read_value :: "nat list \<Rightarrow> jsstring \<Rightarrow> (jsval \<times> jsstring) option"
  and read_elements :: "nat list \<Rightarrow> jsval list \<Rightarrow> jsstring \<Rightarrow> (jsval \<times> jsstring) option"
  and read_members :: "nat list \<Rightarrow> (jsstring \<times> jsval) list \<Rightarrow> jsstring \<Rightarrow> (jsval \<times> jsstring) option"
where
  "read_value [] cs = None"
| "read_value (f # fuel) cs =
     (case skip_ws cs of
        [] \<Rightarrow> None
      | c # rest \<Rightarrow>
          if c = 123 then
            (case skip_ws rest of
               [] \<Rightarrow> None
             | d # rest' \<Rightarrow> if d = 125 then Some (Obj [], rest') else read_members fuel [] (d # rest'))
          else if c = 91 then
            (case skip_ws rest of
               [] \<Rightarrow> None
             | d # rest' \<Rightarrow> if d = 93 then Some (Arr [], rest') else read_elements fuel [] (d # rest'))
          else if c = 34 then map_option (\<lambda>(s, r). (Str s, r)) (read_chars [] rest)
          else if take 4 (c # rest) = [110, 117, 108, 108] then Some (Null, drop 3 rest)
          else if take 4 (c # rest) = [116, 114, 117, 101] then Some (Bool True, drop 3 rest)
          else if take 5 (c # rest) = [102, 97, 108, 115, 101] then Some (Bool False, drop 4 rest)
          else map_option (\<lambda>(n, r). (Num n, r)) (read_number (c # rest)))"
| "read_elements [] acc cs = None"
| "read_elements (f # fuel) acc cs =
     (case read_value fuel cs of
        None \<Rightarrow> None
      | Some (v, rest) \<Rightarrow>
          (case skip_ws rest of
             [] \<Rightarrow> None
           | c # rest' \<Rightarrow>
               if c = 44 then read_elements fuel (acc @ [v]) rest'
               else if c = 93 then Some (Arr (acc @ [v]), rest')
               else None))"
| "read_members [] acc cs = None"
| "read_members (f # fuel) acc cs =
     (case skip_ws cs of
        [] \<Rightarrow> None
      | q # rest \<Rightarrow>
          if q \<noteq> 34 then None
          else (case read_chars [] rest of
                  None \<Rightarrow> None
                | Some (k, rest1) \<Rightarrow>
                    (case skip_ws rest1 of
                       [] \<Rightarrow> None
                     | c # rest2 \<Rightarrow>
                         if c \<noteq> 58 then None
                         else (case read_value fuel rest2 of
                                 None \<Rightarrow> None
                               | Some (v, rest3) \<Rightarrow>
                                   (case skip_ws rest3 of
                                      [] \<Rightarrow> None
                                    | c' # rest4 \<Rightarrow>
                                        if c' = 44 then read_members fuel (set_key k v acc) rest4
                                        else if c' = 125 then Some (Obj (set_key k v acc), rest4)
                                        else None)))))"

definition std_json_parse :: "jsstring \<Rightarrow> jsval option" where
  "std_json_parse s =
     (case read_value (0 # 0 # s) s of
        None \<Rightarrow> None
      | Some (v, rest) \<Rightarrow> if skip_ws rest = [] then Some v else None)"

text \<open>
  \<open>Date.parse\<close> as Node's engine reads the forms the application meets: the date
  alone, \<open>YYYY-MM-DD\<close>, which is midnight UTC, and a date with a time,
  \<open>YYYY-MM-DDTHH:MM\<close> with optional seconds, fraction and offset (\<open>Z\<close> or
  \<open>+HH:MM\<close>). A month outside 1 to 12 or a day outside 1 to 31 makes the date
  invalid; a day beyond the end of its month runs into the next month. \<open>24:00:00\<close> is
  the end of the day. A time without offset is local time, and the server's zone is
  taken to be UTC. Other texts, which the engine reads by rules of its own, count as
  invalid here.
\<close>

definition days_from_civil :: "int \<Rightarrow> int \<Rightarrow> int \<Rightarrow> int" where
  "days_from_civil y m d =
     (let y' = (if m \<le> 2 then y - 1 else y);
          era = y' div 400;
          yoe = y' - era * 400;
          doy = (153 * (if 2 < m then m - 3 else m + 9) + 2) div 5 + d - 1;
          doe = yoe * 365 + yoe div 4 - yoe div 100 + doy
      in era * 146097 + doe - 719468)"

definition number_of :: "jsstring \<Rightarrow> int option" where
  "number_of ds = (if ds \<noteq> [] \<and> list_all is_digit ds then Some (int (digits_value ds)) else None)"

definition date_part :: "jsstring \<Rightarrow> int option" where
  "date_part s =
     (case (number_of (take 4 s), number_of (take 2 (drop 5 s)), number_of (take 2 (drop 8 s))) of
        (Some y, Some m, Some d) \<Rightarrow>
          if length s = 10 \<and> s ! 4 = 45 \<and> s ! 7 = 45 \<and> 1 \<le> m \<and> m \<le> 12 \<and> 1 \<le> d \<and> d \<le> 31
          then Some (days_from_civil y m d * 86400000) else None
      | _ \<Rightarrow> None)"

text \<open>\<open>THH:MM\<close>, then what follows it.\<close>

definition hours_minutes :: "jsstring \<Rightarrow> (int \<times> int) option" where
  "hours_minutes s =
     (case (number_of (take 2 (drop 1 s)), number_of (take 2 (drop 4 s))) of
        (Some h, Some mi) \<Rightarrow>
          if length s = 6 \<and> s ! 0 = 84 \<and> s ! 3 = 58 \<and> h \<le> 24 \<and> mi \<le> 59
          then Some (h, mi) else None
      | _ \<Rightarrow> None)"

definition seconds_part :: "jsstring \<Rightarrow> (int \<times> jsstring) option" where
  "seconds_part s =
     (if s \<noteq> [] \<and> hd s = 58 then
        (case number_of (take 2 (tl s)) of
           Some se \<Rightarrow> if length (take 2 (tl s)) = 2 \<and> se \<le> 59 then Some (se, drop 3 s) else None
         | None \<Rightarrow> None)
      else Some (0, s))"

definition fraction_part :: "jsstring \<Rightarrow> (int \<times> jsstring) option" where
  "fraction_part s =
     (if s \<noteq> [] \<and> hd s = 46 then
        (let ds = takeWhile is_digit (tl s)
         in if ds = [] then None
            else Some (int (digits_value (take 3 (ds @ [48, 48]))), dropWhile is_digit (tl s)))
      else Some (0, s))"

definition offset_part :: "jsstring \<Rightarrow> int option" where
  "offset_part s =
     (if s = [] \<or> s = [90] then Some 0
      else case (number_of (take 2 (drop 1 s)), number_of (take 2 (drop 4 s))) of
             (Some h, Some mi) \<Rightarrow>
               if length s = 6 \<and> (s ! 0 = 43 \<or> s ! 0 = 45) \<and> s ! 3 = 58 \<and> h \<le> 23 \<and> mi \<le> 59
               then Some ((if s ! 0 = 45 then - 1 else 1) * (h * 60 + mi) * 60000) else None
           | _ \<Rightarrow> None)"

definition std_date_parse :: "jsstring \<Rightarrow> int option" where
  "std_date_parse s =
     (case date_part (take 10 s) of
        None \<Rightarrow> None
      | Some day \<Rightarrow>
          if length s = 10 then Some day
          else (case hours_minutes (take 6 (drop 10 s)) of
                  None \<Rightarrow> None
                | Some (h, mi) \<Rightarrow>
                    (case seconds_part (drop 16 s) of
                       None \<Rightarrow> None
                     | Some (se, rest) \<Rightarrow>
                         (case fraction_part rest of
                            None \<Rightarrow> None
                          | Some (ms, rest') \<Rightarrow>
                              if h = 24 \<and> (mi \<noteq> 0 \<or> se \<noteq> 0 \<or> ms \<noteq> 0) then None
                              else (case offset_part rest' of
                                      None \<Rightarrow> None
                                    | Some off \<Rightarrow>
                                        Some (day + ((h * 60 + mi) * 60 + se) * 1000 + ms - off))))))"

text \<open>Decimal digits of a natural number.\<close>

fun show_nat :: "nat \<Rightarrow> jsstring" where
  "show_nat n = (if n < 10 then [48 + n] else show_nat (n div 10) @ [48 + n mod 10])"

declare show_nat.simps [simp del]

text \<open>
  \<open>Number.prototype.toString\<close>: an integer in decimal. Of another number, the
  integer part and the first six decimals (exact for short decimals such as 1.5).
\<close>

definition strip_zeros :: "jsstring \<Rightarrow> jsstring" where
  "strip_zeros ds = rev (dropWhile (\<lambda>c. c = 48) (rev ds))"

definition std_number_to_string :: "rat \<Rightarrow> jsstring" where
  "std_number_to_string r =
     (let a = \<bar>r\<bar>; ip = nat (floor a); fr = nat (floor ((a - of_int (floor a)) * 1000000));
          frac = strip_zeros (drop 1 (show_nat (1000000 + fr)))
      in (if r < 0 then [45] else []) @ show_nat ip @ (if frac = [] then [] else 46 # frac))"

text \<open>
  The conversion of a string to a number: white space around; then nothing (which
  is 0), or \<open>0x\<close>, \<open>0o\<close>, \<open>0b\<close> and digits of that base, or an optional sign and
  \<open>Infinity\<close> or decimal digits with an optional fraction and exponent. Anything else
  is NaN.
\<close>

definition digit_in :: "nat \<Rightarrow> nat \<Rightarrow> bool" where
  "digit_in base c = (case hex_digit c of None \<Rightarrow> False | Some v \<Rightarrow> v < base)"

definition based_value :: "nat \<Rightarrow> jsstring \<Rightarrow> number" where
  "based_value base ds =
     (if ds \<noteq> [] \<and> list_all (digit_in base) ds
      then to_double (int (foldl (\<lambda>a c. base * a + the (hex_digit c)) 0 ds)) 1
      else NaN)"

definition unsigned_decimal :: "jsstring \<Rightarrow> number" where
  "unsigned_decimal u =
     (let ip = takeWhile is_digit u;
          r1 = dropWhile is_digit u;
          has_frac = (r1 \<noteq> [] \<and> hd r1 = 46);
          fp = (if has_frac then takeWhile is_digit (tl r1) else []);
          r2 = (if has_frac then dropWhile is_digit (tl r1) else r1);
          has_exp = (r2 \<noteq> [] \<and> (hd r2 = 101 \<or> hd r2 = 69));
          r3 = (if has_exp then tl r2 else r2);
          eneg = (has_exp \<and> r3 \<noteq> [] \<and> hd r3 = 45);
          r4 = (if has_exp \<and> r3 \<noteq> [] \<and> (hd r3 = 45 \<or> hd r3 = 43) then tl r3 else r3);
          ep = (if has_exp then takeWhile is_digit r4 else []);
          r5 = (if has_exp then dropWhile is_digit r4 else r2)
      in if u = js ''Infinity'' then PosInf
         else if (ip = [] \<and> fp = []) \<or> (has_exp \<and> ep = []) \<or> r5 \<noteq> [] then NaN
         else decimal_value ip fp eneg ep)"

definition std_string_to_number :: "jsstring \<Rightarrow> number" where
  "std_string_to_number s =
     (let t = js_trim s
      in if t = [] then Fin 0
         else if take 2 t = js ''0x'' \<or> take 2 t = js ''0X'' then based_value 16 (drop 2 t)
         else if take 2 t = js ''0o'' \<or> take 2 t = js ''0O'' then based_value 8 (drop 2 t)
         else if take 2 t = js ''0b'' \<or> take 2 t = js ''0B'' then based_value 2 (drop 2 t)
         else if hd t = 45 then negated (unsigned_decimal (tl t))
         else if hd t = 43 then unsigned_decimal (tl t)
         else unsigned_decimal t)"

text \<open>\<open>toLowerCase\<close> on the letters A to Z; exact on text with no other cased letter.\<close>

definition std_to_lower_case :: "jsstring \<Rightarrow> jsstring" where
  "std_to_lower_case s = map (\<lambda>c. if 65 \<le> c \<and> c \<le> 90 then c + 32 else c) s"

definition std_type_error_message :: "jsval \<Rightarrow> jsstring \<Rightarrow> jsstring" where
  "std_type_error_message v k =
     (if v = Null then js ''Cannot read properties of null (reading '' @ k @ js '')''
      else if v = Undefined then js ''Cannot read properties of undefined (reading '' @ k @ js '')''
      else k @ js '' is not a function'')"

definition std_runtime :: runtime where
  "std_runtime =
     \<lparr> json_parse = std_json_parse,
       date_parse = std_date_parse,
       number_to_string = std_number_to_string,
       string_to_number = std_string_to_number,
       to_lower_case = std_to_lower_case,
       type_error_message = std_type_error_message \<rparr>"


text \<open>Rows for evaluation: Alice's tasks on 15 January 2024, 10:00 UTC.\<close>

definition due_today_row :: todo_row where
  "due_today_row = sample_row\<lparr> row_id := js ''t2'', due_date := Some (js ''2024-01-15'') \<rparr>"

definition urgent_row :: todo_row where
  "urgent_row = sample_row\<lparr> row_id := js ''t3'', priority := 1 \<rparr>"

definition due_soon_row :: todo_row where
  "due_soon_row = sample_row\<lparr> row_id := js ''t4'', priority := 3,
                               due_date := Some (js ''2024-01-16T09:00:00+00:00'') \<rparr>"

definition done_row :: todo_row where
  "done_row = sample_row\<lparr> row_id := js ''t5'', status := Completed \<rparr>"

definition sample_rows :: "todo_row list" where
  "sample_rows = [due_soon_row, urgent_row, sample_row, due_today_row, done_row]"













section \<open>Properties of the task routes\<close>

lemma js_trim_blank: "(\<forall>c\<in>set s. js_ws c) \<Longrightarrow> js_trim s = []"
proof -
  assume "\<forall>c\<in>set s. js_ws c"
  then have "dropWhile js_ws s = []"
    by (induction s) simp_all
  then show ?thesis
    unfolding js_trim_def by (simp del: dropWhile_eq_Nil_conv)
qed

lemma rewrite_rows_unmatched:
  "(\<forall>r\<in>set tbl. \<not> matches tid uid r) \<Longrightarrow> rewrite_rows db ud tid uid tbl = Some tbl"
  by (induction tbl) simp_all

lemma filter_unmatched:
  "(\<forall>r\<in>set tbl. \<not> matches tid uid r) \<Longrightarrow> filter (matches tid uid) tbl = []"
  by (induction tbl) simp_all

lemma update_single_unmatched:
  assumes "\<forall>r\<in>set tbl. \<not> matches tid uid r"
    and "id_ok db tid" and "id_ok db uid" and "payload_ok db ud"
  shows "update_single db tbl ud tid uid = (Inl PGRST116, tbl)"
  using assms by (simp add: update_single_def rewrite_rows_unmatched filter_unmatched)

lemma update_single_failed_keeps_table:
  "fst (update_single db tbl ud tid uid) = Inl OtherDbError
     \<Longrightarrow> snd (update_single db tbl ud tid uid) = tbl"
  by (auto simp: update_single_def split: if_splits option.splits list.splits)

text \<open>
  \<open>PUT\<close> on a task that does not exist or is another user's: when the body passes the
  handler's own checks and the database can read the request, the answer is 404 and the
  table is as before.
\<close>

lemma PUT_unmatched_404:
  assumes "\<forall>r\<in>set tbl. \<not> matches tid uid r"
    and "b \<noteq> Null"
    and "title_rejected (js_get b (js ''title'')) = Some False"
    and "build_update b = Some ud"
    and "id_ok db tid" and "id_ok db uid" and "payload_ok db ud"
  shows "PUT db tbl (Some uid) tid (Some b) = (Failure 404 None, tbl)"
  using assms by (simp add: PUT_def update_single_unmatched)

text \<open>
  \<open>DELETE\<close> on a task that does not exist or is another user's leaves the table as it
  was, and answers 200: nothing in the handler asks whether a row was deleted.
\<close>

lemma DELETE_unmatched_200:
  assumes "\<forall>r\<in>set tbl. \<not> matches tid uid r" and "id_ok db tid" and "id_ok db uid"
  shows "DELETE db tbl (Some uid) tid = (Success (), tbl)"
proof -
  have "filter (\<lambda>r. \<not> matches tid uid r) tbl = tbl"
    using assms(1) by (induction tbl) simp_all
  then show ?thesis
    using assms(2,3) by (simp add: DELETE_def delete_rows_def)
qed

text \<open>
  C5. Bob, signed in, sends \<open>DELETE\<close> and \<open>PUT\<close> for Alice's task \<open>t1\<close>. \<open>PUT\<close>
  answers 404; \<open>DELETE\<close> answers 200 with its confirmation, not 404. In both cases the
  row is untouched.
\<close>

theorem DELETE_foreign_task_answers_200:
  "DELETE plain_db [sample_row] (Some (js ''bob'')) (js ''t1'') = (Success (), [sample_row])
   \<and> PUT plain_db [sample_row] (Some (js ''bob'')) (js ''t1'')
        (Some (Obj [(js ''title'', Str (js ''Mine now''))])) = (Failure 404 None, [sample_row])"
  by (simp add: DELETE_def delete_rows_def PUT_def update_single_def title_rejected_def
      build_update_def description_value_def opt_field_def matches_def plain_db_def
      sample_row_def js_def js_trim_def js_ws_def)

text \<open>
  C10, as stated for every request. Without a session the handler answers 401 before it
  reads the body: the same blank title is then not answered with 400. The row is
  untouched all the same.
\<close>

theorem PUT_blank_title_without_session:
  "PUT plain_db [sample_row] None (js ''t1'') (Some (Obj [(js ''title'', Str (js ''   ''))]))
     = (Failure 401 None, [sample_row])"
  by (simp add: PUT_def)

text \<open>
  C10, amended. A signed-in user sends an update whose \<open>title\<close> is the empty string or
  consists of white space only (the characters \<open>trim\<close> strips). The answer is 400, and
  the table handed back is the table as it was: the update statement is never reached.
\<close>

theorem PUT_blank_title_400:
  assumes "js_get b (js ''title'') = Str s" and "\<forall>c\<in>set s. js_ws c"
  shows "PUT db tbl (Some uid) tid (Some b) = (Failure 400 None, tbl)"
proof -
  have nn: "b \<noteq> Null"
    using assms(1) by auto
  have "title_rejected (Str s) = Some True"
    using js_trim_blank [OF assms(2)] by (simp add: title_rejected_def)
  then show ?thesis
    using assms(1) nn by (simp add: PUT_def)
qed

theorem PUT_blank_title_400_witness:
  "js_get (Obj [(js ''title'', Str (js ''   ''))]) (js ''title'') = Str (js ''   '')
   \<and> list_all js_ws (js ''   '')
   \<and> PUT plain_db [sample_row] (Some (js ''alice'')) (js ''t1'')
        (Some (Obj [(js ''title'', Str (js ''   ''))])) = (Failure 400 None, [sample_row])"
proof -
  have g: "js_get (Obj [(js ''title'', Str (js ''   ''))]) (js ''title'') = Str (js ''   '')"
    by simp
  have w: "\<forall>c\<in>set (js ''   ''). js_ws c"
    by (simp add: js_def js_ws_def)
  have "list_all js_ws (js ''   '')"
    using w by (simp only: list_all_iff)
  then show ?thesis
    using g PUT_blank_title_400 [OF g w, of plain_db "[sample_row]" "js ''alice''" "js ''t1''"]
    by simp
qed


section \<open>Properties of the summary analytics\<close>

lemma insert_by_insort_key:
  "(\<And>a b. cmp a b \<le> 0 \<longleftrightarrow> k a \<le> k b) \<Longrightarrow> insert_by cmp x xs = insort_key k x xs"
  by (induction xs) simp_all

lemma js_sort_sort_key:
  assumes "\<And>a b. cmp a b \<le> 0 \<longleftrightarrow> k a \<le> k b"
  shows "js_sort cmp xs = sort_key k xs"
  by (induction xs) (simp_all add: insert_by_insort_key [where k = k, OF assms])

lemma sortedPending_sort_key:
  "sortedPending todos = sort_key priority (pendingTodos todos)"
  unfolding sortedPending_def
  by (rule js_sort_sort_key) (simp add: by_priority_def)



text \<open>
  C8. Whatever rows were fetched, \<open>remainingTodos\<close> holds exactly the pending tasks
  (as a multiset), is sorted by ascending priority, and for every priority value the
  tasks of that priority appear in the order they had in the fetched rows.
\<close>

theorem remainingTodos_sorted_stable:
  "mset (remainingTodos todos) = image_mset to_item (mset (filter (\<lambda>t. status t = Pending) todos))
   \<and> sorted (map ti_priority (remainingTodos todos))
   \<and> (\<forall>p. filter (\<lambda>i. ti_priority i = p) (remainingTodos todos)
            = map to_item (filter (\<lambda>t. priority t = p) (filter (\<lambda>t. status t = Pending) todos)))"
proof -
  let ?pend = "filter (\<lambda>t. status t = Pending) todos"
  have r: "remainingTodos todos = map to_item (sort_key priority ?pend)"
    by (simp add: remainingTodos_def sortedPending_sort_key pendingTodos_def)
  have p: "ti_priority \<circ> to_item = priority"
    by (auto simp: to_item_def)
  have a: "mset (remainingTodos todos) = image_mset to_item (mset ?pend)"
    by (simp add: r)
  have b: "sorted (map ti_priority (remainingTodos todos))"
    by (simp add: r p)
  have c: "filter (\<lambda>i. ti_priority i = q) (remainingTodos todos)
            = map to_item (filter (\<lambda>t. priority t = q) ?pend)" for q
  proof -
    have "filter (\<lambda>i. ti_priority i = q) (remainingTodos todos)
          = map to_item (filter (\<lambda>t. priority t = q) (sort_key priority ?pend))"
      by (simp add: r filter_map comp_def to_item_def)
    then show ?thesis
      by (simp add: sort_key_stable)
  qed
  show ?thesis
    using a b c by blast
qed














lemma percent_zero_total: "percent a 0 = 0"
  by (simp add: percent_def)

lemma half_even_exact: "0 < d \<Longrightarrow> half_even (d * q) d = q"
  by (simp add: half_even_def)

lemma nearest_same: "0 < n \<Longrightarrow> nearest n n = (4503599627370496, - 52)"
  using half_even_exact [of n 4503599627370496] by (simp add: nearest_def Let_def mult.commute)

lemma times_100_one: "times_100 (4503599627370496, - 52) = (7036874417766400, - 46)"
  by (simp add: times_100_def nearest_def half_even_def compute_bitlen Let_def)

lemma math_round_100: "math_round (7036874417766400, - 46) = 100"
  by (simp add: math_round_def)

lemma percent_all: "0 < n \<Longrightarrow> percent n n = 100"
  by (simp add: percent_def js_divide_def nearest_same times_100_one math_round_100)

lemma div_7_10: "js_divide 7 10 = (6305039478318694, - 53)"
  by (simp add: js_divide_def nearest_def half_even_def compute_bitlen Let_def)

lemma percent_7_10: "percent 7 10 = 70"
proof -
  have "times_100 (6305039478318694, - 53) = (4925812092436480, - 46)"
    by (simp add: times_100_def nearest_def half_even_def compute_bitlen Let_def)
  then show ?thesis
    by (simp add: percent_def div_7_10 math_round_def)
qed

lemma div_23_40: "js_divide 23 40 = (5179139571476070, - 53)"
  by (simp add: js_divide_def nearest_def half_even_def compute_bitlen Let_def)

lemma times_23_40: "times_100 (5179139571476070, - 53) = (8092405580431359, - 47)"
  by (simp add: times_100_def nearest_def half_even_def compute_bitlen Let_def)

lemma percent_23_40: "percent 23 40 = 57"
  by (simp add: percent_def div_23_40 times_23_40 math_round_def)

lemma exact_23_40: "exact_percent 23 40 = 58"
  by (simp add: exact_percent_def)

lemma math_round_floor: "math_round (m, e) = floor (dval (m, e) + 1 / 2)"
proof (cases "0 \<le> e")
  case True
  then have "dval (m, e) = of_int (m * 2 ^ nat e)"
    by (simp add: dval_def power_int_def)
  moreover have "floor (of_int (m * 2 ^ nat e) + 1 / 2 :: rat) = m * 2 ^ nat e"
    by (rule floor_unique) simp_all
  ultimately show ?thesis
    using True by (simp only: math_round_def split if_True)
next
  case False
  define k where "k = nat (- e)"
  have e: "e = - int k" "nat (1 - e) = Suc k"
    using False by (simp_all add: k_def)
  have "dval (m, e) = of_int m / 2 ^ k"
    by (simp add: dval_def e(1) power_int_minus divide_inverse)
  moreover have "(of_int (2 * m + 2 ^ k) :: rat) / of_int (2 ^ Suc k) = of_int m / 2 ^ k + 1 / 2"
    by (simp add: add_divide_distrib)
  ultimately have "dval (m, e) + 1 / 2 = of_int (2 * m + 2 ^ k) / of_int (2 ^ Suc k)"
    by simp
  then have "floor (dval (m, e) + 1 / 2) = (2 * m + 2 ^ k) div 2 ^ Suc k"
    by (simp only: floor_divide_of_int_eq)
  moreover have "math_round (m, e) = (2 * m + 2 ^ k) div 2 ^ Suc k"
    using False by (simp add: math_round_def k_def [symmetric] e(2))
  ultimately show ?thesis
    by simp
qed

text \<open>
  C9. Forty tasks, 23 of them completed: \<open>23 / 40\<close> is rounded to a double just below
  0.575, the product with 100 to one just below 57.5, and \<open>Math.round\<close> answers 57.
  Exactly, \<open>100 * 23 / 40 = 57.5\<close>, which rounds half up to 58.
\<close>

theorem completionRate_23_of_40:
  "completionRate (replicate 23 (sample_row\<lparr>status := Completed\<rparr>) @ replicate 17 sample_row) = 57
   \<and> exact_percent 23 40 = 58"
  by (simp add: completionRate_def completedTodos_def sample_row_def percent_23_40 exact_23_40)


section \<open>Properties of the summary route\<close>

lemma or_else_defined: "b \<noteq> Undefined \<Longrightarrow> or_else a b \<noteq> Undefined"
  by (cases a) (auto simp: or_else_def)

lemma array_or_defined: "b \<noteq> Undefined \<Longrightarrow> array_or a b \<noteq> Undefined"
  by (cases a) auto

lemma or_else_undefined: "or_else Undefined b = b"
  by (simp add: or_else_def)

lemma summary_catch_fails: "summary_catch msg \<noteq> Success x"
  by (simp add: summary_catch_def)

lemma validatedData_fields:
  "k \<in> set report_fields \<Longrightarrow> js_get (validatedData rt ck p todos prev parsedData) k \<noteq> Undefined"
  by (auto simp: report_fields_def validatedData_def js_def or_else_defined array_or_defined
      default_summary_def default_completionAnalysis_def default_timeManagement_def
      default_productivityPatterns_def default_motivation_def)

lemma validatedData_defaults:
  assumes "\<forall>k \<in> set model_fields. js_get parsedData k = Undefined"
  shows "validatedData rt ck p todos prev parsedData = default_report rt ck p todos prev"
  using assms by (simp add: model_fields_def validatedData_def default_report_def or_else_undefined)

text \<open>
  C6, amended. A successful response to a summary request either was computed from a
  non-empty record set, and then each of the ten report fields is present in it, or it
  answers an empty record set (or none), and then it is the fixed four-field object.
\<close>

theorem summary_success_fields:
  assumes "POST_summary rt ck apiKey body auth cur prev reply = Success payload"
  shows "(\<exists>todos. cur = QueryData (Some todos) \<and> todos \<noteq> []
            \<and> (\<forall>k \<in> set report_fields. js_get payload k \<noteq> Undefined))
         \<or> ((cur = QueryData None \<or> cur = QueryData (Some [])) \<and> (\<exists>p. payload = empty_summary p))"
  using assms validatedData_fields summary_catch_fails
  by (auto simp: POST_summary_def
      split: if_splits sum.splits option.splits list.splits query_result.splits
             model_reply.splits prod.splits)

lemmas json_eval = std_json_parse_def skip_ws_def json_ws_def read_number_def is_digit_def
  digits_value_def set_key_def json_match_def jsonString_def

lemma reply_sorry: "json_parse std_runtime (jsonString (js ''Sorry, no analysis today.'')) = None"
  by (simp add: std_runtime_def json_eval js_def Let_def)

lemma reply_braces: "json_parse std_runtime (jsonString (js ''Here you are: {} '')) = Some (Obj [])"
  by (simp add: std_runtime_def json_eval js_def Let_def)

lemma today_period: "read_period (js_get today_body (js ''period'')) = Some Today"
  "truthy (js_get today_body (js ''period''))" "today_body \<noteq> Null" "today_body \<noteq> Undefined"
  by (simp_all add: today_body_def read_period_def js_def)

text \<open>
  C6, as stated for every record set. For the empty record set the handler returns early
  with \<open>summary\<close>, \<open>urgentTasks\<close>, \<open>insights\<close> and \<open>recommendations\<close> only: six
  of the ten fields are absent from a successful response.
\<close>

theorem summary_empty_set_lacks_fields:
  "POST_summary std_runtime sample_clock True (Inr today_body) (Some (js ''alice''))
     (QueryData (Some [])) (QueryData (Some [])) (Reply (js ''{}'')) = Success (empty_summary Today)
   \<and> js_get (empty_summary Today) (js ''remainingTodos'') = Undefined
   \<and> js_get (empty_summary Today) (js ''focusTasks'') = Undefined
   \<and> js_get (empty_summary Today) (js ''completionAnalysis'') = Undefined
   \<and> js_get (empty_summary Today) (js ''timeManagement'') = Undefined
   \<and> js_get (empty_summary Today) (js ''productivityPatterns'') = Undefined
   \<and> js_get (empty_summary Today) (js ''motivation'') = Undefined"
proof -
  have "POST_summary std_runtime sample_clock True (Inr today_body) (Some (js ''alice''))
     (QueryData (Some [])) (QueryData (Some [])) (Reply (js ''{}'')) = Success (empty_summary Today)"
    by (simp add: POST_summary_def today_period)
  moreover have "js_get (empty_summary Today) (js ''remainingTodos'') = Undefined"
    "js_get (empty_summary Today) (js ''focusTasks'') = Undefined"
    "js_get (empty_summary Today) (js ''completionAnalysis'') = Undefined"
    "js_get (empty_summary Today) (js ''timeManagement'') = Undefined"
    "js_get (empty_summary Today) (js ''productivityPatterns'') = Undefined"
    "js_get (empty_summary Today) (js ''motivation'') = Undefined"
    by (simp_all add: empty_summary_def js_def)
  ultimately show ?thesis
    by simp
qed

theorem summary_success_fields_witness:
  "POST_summary std_runtime sample_clock True (Inr today_body) (Some (js ''alice''))
     (QueryData (Some sample_rows)) (QueryData None) (Reply (js ''Here you are: {} ''))
     = Success (default_report std_runtime sample_clock Today sample_rows None)
   \<and> sample_rows \<noteq> []
   \<and> list_all (\<lambda>k. js_get (default_report std_runtime sample_clock Today sample_rows None) k
                      \<noteq> Undefined) report_fields"
proof -
  have m: "\<forall>k \<in> set model_fields. js_get (Obj []) k = Undefined"
    by simp
  have p: "POST_summary std_runtime sample_clock True (Inr today_body) (Some (js ''alice''))
     (QueryData (Some sample_rows)) (QueryData None) (Reply (js ''Here you are: {} ''))
     = Success (default_report std_runtime sample_clock Today sample_rows None)"
    by (simp add: POST_summary_def today_period reply_braces sample_rows_def
        validatedData_defaults [OF m])
  have n: "sample_rows \<noteq> []"
    by (simp add: sample_rows_def)
  from summary_success_fields [OF p] n
  have "\<forall>k \<in> set report_fields.
          js_get (default_report std_runtime sample_clock Today sample_rows None) k \<noteq> Undefined"
    by auto
  then show ?thesis
    using p n by (simp add: list_all_iff)
qed

text \<open>
  C1, as stated. The model replies with prose that holds no JSON: the handler's inner
  \<open>catch\<close> answers status 500 with code \<open>PARSE_ERROR\<close>, not a report of defaults.
\<close>

theorem summary_unparseable_reply_fails:
  "POST_summary std_runtime sample_clock True (Inr today_body) (Some (js ''alice''))
     (QueryData (Some sample_rows)) (QueryData None) (Reply (js ''Sorry, no analysis today.''))
     = Failure 500 (Some PARSE_ERROR)"
  by (simp add: POST_summary_def today_period reply_sorry sample_rows_def)

text \<open>
  C1, amended. For a request with a valid period by a signed-in user, the key configured
  and a non-empty record set fetched: if \<open>JSON.parse\<close> throws on the reply, the answer
  is status 500 with code \<open>PARSE_ERROR\<close>; if the reply parses to a value other than
  \<open>null\<close> that has none of the fields asked for (the object \<open>{}\<close>, say), the answer
  is a success whose every field is the default computed from the analytics.
\<close>

theorem summary_reply_handling:
  assumes "read_period (js_get b (js ''period'')) = Some p" and "todos \<noteq> []"
  shows "(json_parse rt (jsonString text) = None \<longrightarrow>
            POST_summary rt ck True (Inr b) (Some uid) (QueryData (Some todos))
              (QueryData previousTodos) (Reply text) = Failure 500 (Some PARSE_ERROR))
       \<and> (\<forall>parsedData. json_parse rt (jsonString text) = Some parsedData \<and> parsedData \<noteq> Null
              \<and> (\<forall>k \<in> set model_fields. js_get parsedData k = Undefined) \<longrightarrow>
            POST_summary rt ck True (Inr b) (Some uid) (QueryData (Some todos))
              (QueryData previousTodos) (Reply text)
              = Success (default_report rt ck p todos previousTodos))"
proof -
  have t: "truthy (js_get b (js ''period''))" "b \<noteq> Null" "b \<noteq> Undefined"
    using assms(1) by (auto simp: read_period_def js_def split: if_splits)
  obtain x xs where c: "todos = x # xs"
    using assms(2) by (cases todos) auto
  show ?thesis
    using t assms(1) by (auto simp: POST_summary_def c validatedData_defaults)
qed

theorem summary_reply_handling_witness:
  "read_period (js_get today_body (js ''period'')) = Some Today
   \<and> sample_rows \<noteq> []
   \<and> json_parse std_runtime (jsonString (js ''Sorry, no analysis today.'')) = None
   \<and> POST_summary std_runtime sample_clock True (Inr today_body) (Some (js ''alice''))
        (QueryData (Some sample_rows)) (QueryData None) (Reply (js ''Sorry, no analysis today.''))
        = Failure 500 (Some PARSE_ERROR)
   \<and> json_parse std_runtime (jsonString (js ''Here you are: {} '')) = Some (Obj [])
   \<and> POST_summary std_runtime sample_clock True (Inr today_body) (Some (js ''alice''))
        (QueryData (Some sample_rows)) (QueryData None) (Reply (js ''Here you are: {} ''))
        = Success (default_report std_runtime sample_clock Today sample_rows None)"
proof -
  have n: "sample_rows \<noteq> []"
    by (simp add: sample_rows_def)
  note h = summary_reply_handling [OF today_period(1) n, of std_runtime _ sample_clock "js ''alice''" None]
  have a: "POST_summary std_runtime sample_clock True (Inr today_body) (Some (js ''alice''))
        (QueryData (Some sample_rows)) (QueryData None) (Reply (js ''Sorry, no analysis today.''))
        = Failure 500 (Some PARSE_ERROR)"
    using h [of "js ''Sorry, no analysis today.''"] reply_sorry by blast
  have b: "POST_summary std_runtime sample_clock True (Inr today_body) (Some (js ''alice''))
        (QueryData (Some sample_rows)) (QueryData None) (Reply (js ''Here you are: {} ''))
        = Success (default_report std_runtime sample_clock Today sample_rows None)"
    using h [of "js ''Here you are: {} ''"] reply_braces by simp
  show ?thesis
    using today_period(1) n reply_sorry reply_braces a b by simp
qed


section \<open>Properties of the parse route\<close>























text \<open>
  C2. With the key configured and whatever the model would reply: the empty string is
  answered 400 with \<open>MISSING_INPUT\<close>, by the handler's first check, although
  \<open>validateInput\<close> would have said \<open>EMPTY_INPUT\<close>; the string of three blanks is
  answered 400 with \<open>INVALID_CONTENT\<close>, and \<open>null\<close> 400 with \<open>MISSING_INPUT\<close>.
\<close>

theorem parse_rejections:
  "POST_parse rt ck True (Inr (Obj [(js ''input'', Str [])])) reply = Failure 400 (Some MISSING_INPUT)
   \<and> validateInput (Some []) = Some EMPTY_INPUT
   \<and> POST_parse rt ck True (Inr (Obj [(js ''input'', Str (js ''   ''))])) reply
       = Failure 400 (Some INVALID_CONTENT)
   \<and> POST_parse rt ck True (Inr (Obj [(js ''input'', Null)])) reply = Failure 400 (Some MISSING_INPUT)
   \<and> validateInput None = Some MISSING_INPUT"
  by (simp add: POST_parse_def validateInput_def js_def js_ws_def)








lemma to_number_two: "to_number rt (or_else Undefined (Num (Fin 2))) = Inr (Fin 2)"
  by (simp add: or_else_def to_number_def)




















end
